theory Spec2Isabelle
  imports Complex_Main "HOL-Library.Sublist" "HOL-Library.Word"
begin

section \<open>Python values, exceptions and the HTTP library\<close>

text \<open>
  The values that \<open>response.json()\<close> yields and that the client functions of
  \<open>app.py\<close> hand back: \<open>None\<close>, booleans, integers, floats, strings, lists and
  dictionaries. A dictionary keeps its members in document order; a later member with the
  same key replaces an earlier one, as \<open>json.loads\<close> does.
\<close>

datatype pyval =
    PNone
  | PBool bool
  | PInt int
  | PFloat rat
  | PStr string
  | PList "pyval list"
  | PDict "(string \<times> pyval) list"

text \<open>
  The exceptions that can occur while a client function or a screen runs. Only the
  distinction between \<open>HTTPError\<close> and the rest matters to the \<open>except\<close> clauses;
  \<open>StopException\<close> is what \<open>st.stop()\<close> raises to end the script run.
\<close>

datatype exn =
    HTTPError string
  | RequestException string
  | JSONDecodeError string
  | IndexError string
  | KeyError string
  | TypeError string
  | AttributeError string
  | ValueError string
  | UnidentifiedImageError string
  | OtherException string
  | StopException

fun str_exn :: "exn \<Rightarrow> string" where
  "str_exn (HTTPError m) = m"
| "str_exn (RequestException m) = m"
| "str_exn (JSONDecodeError m) = m"
| "str_exn (IndexError m) = m"
| "str_exn (KeyError m) = m"
| "str_exn (TypeError m) = m"
| "str_exn (AttributeError m) = m"
| "str_exn (ValueError m) = m"
| "str_exn (UnidentifiedImageError m) = m"
| "str_exn (OtherException m) = m"
| "str_exn StopException = []"

definition and_then :: "exn + 'a \<Rightarrow> ('a \<Rightarrow> exn + 'b) \<Rightarrow> exn + 'b" where
  "and_then r f = (case r of Inl e \<Rightarrow> Inl e | Inr x \<Rightarrow> f x)"

definition apos :: string where
  "apos = [CHR 0x27]"

fun type_name :: "pyval \<Rightarrow> string" where
  "type_name PNone = ''NoneType''"
| "type_name (PBool b) = ''bool''"
| "type_name (PInt i) = ''int''"
| "type_name (PFloat x) = ''float''"
| "type_name (PStr s) = ''str''"
| "type_name (PList xs) = ''list''"
| "type_name (PDict kvs) = ''dict''"

text \<open>\<open>v.get(key, dflt)\<close>: a method of dictionaries only.\<close>

definition py_get :: "pyval \<Rightarrow> string \<Rightarrow> pyval \<Rightarrow> exn + pyval" where
  "py_get v key dflt =
     (case v of
        PDict kvs \<Rightarrow> Inr (case map_of (rev kvs) key of Some x \<Rightarrow> x | None \<Rightarrow> dflt)
      | _ \<Rightarrow> Inl (AttributeError
                 (apos @ type_name v @ apos @ '' object has no attribute '' @ apos @ ''get'' @ apos)))"

text \<open>
  \<open>v[0]\<close>: the first element of a list or string, \<open>IndexError\<close> when it is empty,
  \<open>KeyError\<close> on a dictionary decoded from JSON (its keys are strings, never \<open>0\<close>),
  \<open>TypeError\<close> on every other value.
\<close>

fun py_getitem0 :: "pyval \<Rightarrow> exn + pyval" where
  "py_getitem0 (PList []) = Inl (IndexError ''list index out of range'')"
| "py_getitem0 (PList (x # xs)) = Inr x"
| "py_getitem0 (PStr []) = Inl (IndexError ''string index out of range'')"
| "py_getitem0 (PStr (c # cs)) = Inr (PStr [c])"
| "py_getitem0 (PDict kvs) = Inl (KeyError ''0'')"
| "py_getitem0 v = Inl (TypeError (apos @ type_name v @ apos @ '' object is not subscriptable''))"

text \<open>\<open>s.startswith(p)\<close> on strings.\<close>

definition startswith :: "string \<Rightarrow> string \<Rightarrow> bool" where
  "startswith s p = prefix p s"

text \<open>\<open>str(n)\<close> for an integer: decimal digits, with a sign when negative.\<close>

fun str_nat :: "nat \<Rightarrow> string" where
  "str_nat n =
     (if n < 10 then [''0123456789'' ! n]
      else str_nat (n div 10) @ [''0123456789'' ! (n mod 10)])"

declare str_nat.simps [simp del]

definition str_int :: "int \<Rightarrow> string" where
  "str_int i = (if i < 0 then ''-'' @ str_nat (nat (- i)) else str_nat (nat i))"

text \<open>
  What the \<open>requests\<close> library gives back. A response carries its status code, reason
  phrase and URL, the body as text, and what \<open>response.json()\<close> does on it: it returns a
  value, or raises \<open>JSONDecodeError\<close> with a message (\<open>Inl\<close>).
\<close>

record response =
  status_code :: int
  reason :: string
  url :: string
  response_text :: string
  response_json :: "string + pyval"

text \<open>
  \<open>response.raise_for_status()\<close> of \<open>requests\<close>: it raises \<open>HTTPError\<close> for the
  client errors 400..499 and the server errors 500..599, and for no other status.
\<close>

definition raise_for_status :: "response \<Rightarrow> exn + unit" where
  "raise_for_status r =
     (if 400 \<le> status_code r \<and> status_code r < 500 then
        Inl (HTTPError (str_int (status_code r) @ '' Client Error: '' @ reason r @
                        '' for url: '' @ url r))
      else if 500 \<le> status_code r \<and> status_code r < 600 then
        Inl (HTTPError (str_int (status_code r) @ '' Server Error: '' @ reason r @
                        '' for url: '' @ url r))
      else Inr ())"

definition json :: "response \<Rightarrow> exn + pyval" where
  "json r = (case response_json r of Inl m \<Rightarrow> Inl (JSONDecodeError m) | Inr v \<Rightarrow> Inr v)"

type_synonym bytes = "8 word list"

datatype body =
    Json pyval
  | Files "(string \<times> string \<times> bytes \<times> string) list"

datatype request = Post (post_url: string) (post_body: body) (post_headers: "(string \<times> string) list")

text \<open>
  \<open>requests.post\<close> either returns a response or raises an exception of the transport
  (\<open>ConnectionError\<close>, \<open>Timeout\<close>, \<open>TooManyRedirects\<close>, ...) with a message. It never
  raises \<open>HTTPError\<close>: only \<open>raise_for_status\<close> does.
\<close>

datatype post_outcome =
    Raised string
  | Returned response

text \<open>
  The remote service answers the last request of the list, knowing the ones sent before.
  Every call of \<open>requests.post\<close> is recorded in the list of requests sent.
\<close>

type_synonym remote = "request list \<Rightarrow> post_outcome"

definition requests_post :: "remote \<Rightarrow> request \<Rightarrow> request list \<Rightarrow> post_outcome \<times> request list" where
  "requests_post net req sent = (net (sent @ [req]), sent @ [req])"

section \<open>Configuration\<close>

definition LLAMA_TEXT_API_URL :: string where
  "LLAMA_TEXT_API_URL = ''https://api.groq.com/openai/v1/chat/completions''"

definition LLAMA_IMAGE_API_URL :: string where
  "LLAMA_IMAGE_API_URL = ''https://api.groq.com/llama3/image''"

section \<open>Helper functions\<close>

text \<open>
  Each client function returns the value of its \<open>return\<close> statement (\<open>Inr\<close>) or the
  exception that leaves it (\<open>Inl\<close>), together with the requests sent so far.
\<close>

definition get_llama_text_response ::
  "remote \<Rightarrow> string \<Rightarrow> string \<Rightarrow> string \<Rightarrow> request list \<Rightarrow> (exn + pyval) \<times> request list" where
  "get_llama_text_response net API_KEY text model sent =
     (let headers = [(''Authorization'', ''Bearer '' @ API_KEY),
                     (''Content-Type'', ''application/json'')];
          payload = PDict [(''model'', PStr model),
                           (''messages'', PList [PDict [(''role'', PStr ''user''),
                                                        (''content'', PStr text)]]),
                           (''max_tokens'', PInt 150),
                           (''temperature'', PFloat (7 / 10))];
          (outcome, sent') = requests_post net (Post LLAMA_TEXT_API_URL (Json payload) headers) sent
      in (case outcome of
            Raised m \<Rightarrow> Inr (PStr (''An error occurred: '' @ m))
          | Returned response \<Rightarrow>
              (case and_then (raise_for_status response) (\<lambda>_.
                    and_then (json response) (\<lambda>j.
                    and_then (py_get j ''choices'' (PList [PDict []])) (\<lambda>choices.
                    and_then (py_getitem0 choices) (\<lambda>choice.
                    and_then (py_get choice ''message'' (PDict [])) (\<lambda>message.
                    py_get message ''content'' (PStr ''No response received.'')))))) of
                 Inr v \<Rightarrow> Inr v
               | Inl (HTTPError m) \<Rightarrow>
                   Inr (PStr (''HTTP error occurred: '' @ m @ '' - '' @ response_text response))
               | Inl err \<Rightarrow> Inr (PStr (''An error occurred: '' @ str_exn err))),
          sent'))"

definition get_llama_image_response ::
  "remote \<Rightarrow> string \<Rightarrow> bytes \<Rightarrow> string \<Rightarrow> request list \<Rightarrow> (exn + pyval) \<times> request list" where
  "get_llama_image_response net API_KEY image_bytes model sent =
     (let headers = [(''Authorization'', ''Bearer '' @ API_KEY)];
          files = [(''image_file'', ''image.png'', image_bytes, ''image/png'')];
          (outcome, sent') = requests_post net (Post LLAMA_IMAGE_API_URL (Files files) headers) sent
      in (case outcome of
            Raised m \<Rightarrow> Inr (PStr (''An error occurred: '' @ m))
          | Returned response \<Rightarrow>
              (case and_then (raise_for_status response) (\<lambda>_.
                    and_then (json response) (\<lambda>j.
                    py_get j ''response'' (PStr ''No response received.''))) of
                 Inr v \<Rightarrow> Inr v
               | Inl (HTTPError m) \<Rightarrow>
                   Inr (PStr (''HTTP error occurred: '' @ m @ '' - '' @ response_text response))
               | Inl err \<Rightarrow> Inr (PStr (''An error occurred: '' @ str_exn err))),
          sent'))"

text \<open>
  An uploaded dataset: its columns in order, each with its cells. The descriptive
  statistics and their serialisation are computed by pandas on floating-point numbers;
  \<open>data.describe().to_json()\<close> is therefore a parameter, which returns the serialised
  summary or raises. It is evaluated before the \<open>try\<close> block is entered.
\<close>

datatype dataframe = DataFrame "(string \<times> pyval list) list"

definition analyze_network_data ::
  "remote \<Rightarrow> (dataframe \<Rightarrow> exn + string) \<Rightarrow> string \<Rightarrow> dataframe \<Rightarrow> string \<Rightarrow> request list
     \<Rightarrow> (exn + pyval) \<times> request list" where
  "analyze_network_data net describe_to_json API_KEY data model sent =
     (case describe_to_json data of
        Inl err \<Rightarrow> (Inl err, sent)
      | Inr summary \<Rightarrow>
         (let headers = [(''Authorization'', ''Bearer '' @ API_KEY),
                         (''Content-Type'', ''application/json'')];
              payload = PDict [(''model'', PStr model),
                               (''messages'', PList [PDict [(''role'', PStr ''user''),
                                  (''content'', PStr (''Analyze the following network performance data summary:\<newline>'' @ summary))]]),
                               (''max_tokens'', PInt 200),
                               (''temperature'', PFloat (5 / 10))];
              (outcome, sent') = requests_post net (Post LLAMA_TEXT_API_URL (Json payload) headers) sent
          in (case outcome of
                Raised m \<Rightarrow> Inr (PStr (''An error occurred: '' @ m))
              | Returned response \<Rightarrow>
                  (case and_then (raise_for_status response) (\<lambda>_.
                        and_then (json response) (\<lambda>j.
                        and_then (py_get j ''choices'' (PList [PDict []])) (\<lambda>choices.
                        and_then (py_getitem0 choices) (\<lambda>choice.
                        and_then (py_get choice ''message'' (PDict [])) (\<lambda>message.
                        py_get message ''content'' (PStr ''No analysis received.'')))))) of
                     Inr v \<Rightarrow> Inr v
                   | Inl (HTTPError m) \<Rightarrow>
                       Inr (PStr (''HTTP error occurred: '' @ m @ '' - '' @ response_text response))
                   | Inl err \<Rightarrow> Inr (PStr (''An error occurred: '' @ str_exn err))),
              sent')))"

section \<open>The wire contract and the client contract, as specified\<close>

text \<open>
  The request to the text endpoint, as the interface description gives it: a POST to the
  chat-completions URL with the bearer credential and the JSON body
  \<open>{model, messages: [{role: "user", content}], max_tokens, temperature}\<close>.
\<close>

definition chat_request :: "string \<Rightarrow> string \<Rightarrow> string \<Rightarrow> int \<Rightarrow> rat \<Rightarrow> request" where
  "chat_request API_KEY model content max_tokens temperature =
     Post ''https://api.groq.com/openai/v1/chat/completions''
       (Json (PDict [(''model'', PStr model),
                     (''messages'', PList [PDict [(''role'', PStr ''user''), (''content'', PStr content)]]),
                     (''max_tokens'', PInt max_tokens),
                     (''temperature'', PFloat temperature)]))
       [(''Authorization'', ''Bearer '' @ API_KEY), (''Content-Type'', ''application/json'')]"

text \<open>
  The request to the image endpoint: a multipart POST with the single file field
  \<open>image_file\<close> (file name \<open>image.png\<close>, type \<open>image/png\<close>) and only the bearer
  credential among the headers.
\<close>

definition image_request :: "string \<Rightarrow> bytes \<Rightarrow> request" where
  "image_request API_KEY image_bytes =
     Post ''https://api.groq.com/llama3/image''
       (Files [(''image_file'', ''image.png'', image_bytes, ''image/png'')])
       [(''Authorization'', ''Bearer '' @ API_KEY)]"

text \<open>
  The field \<open>choices[0].message.content\<close> of a response body, when the body has it.
\<close>

definition member :: "pyval \<Rightarrow> string \<Rightarrow> pyval option" where
  "member v key = (case v of PDict kvs \<Rightarrow> map_of (rev kvs) key | _ \<Rightarrow> None)"

definition first_item :: "pyval \<Rightarrow> pyval option" where
  "first_item v = (case v of PList (x # xs) \<Rightarrow> Some x | _ \<Rightarrow> None)"

definition expected_field :: "pyval \<Rightarrow> pyval option" where
  "expected_field j =
     (case member j ''choices'' of
        None \<Rightarrow> None
      | Some choices \<Rightarrow>
         (case first_item choices of
            None \<Rightarrow> None
          | Some choice \<Rightarrow>
             (case member choice ''message'' of
                None \<Rightarrow> None
              | Some message \<Rightarrow> member message ''content'')))"

text \<open>
  A key of that path is absent while everything above it has the expected shape: the body
  is an object without \<open>choices\<close>, or the first choice is an object without
  \<open>message\<close>, or the message is an object without \<open>content\<close>.
\<close>

definition key_absent :: "pyval \<Rightarrow> bool" where
  "key_absent j =
     (case j of
        PDict kvs \<Rightarrow>
         (case member j ''choices'' of
            None \<Rightarrow> True
          | Some choices \<Rightarrow>
             (case first_item choices of
                Some (PDict c) \<Rightarrow>
                  (case member (PDict c) ''message'' of
                     None \<Rightarrow> True
                   | Some (PDict m) \<Rightarrow> member (PDict m) ''content'' = None
                   | Some _ \<Rightarrow> False)
              | _ \<Rightarrow> False))
      | _ \<Rightarrow> False)"

text \<open>
  The text-submission operation of the client contract, with the maximum output length,
  the temperature and the fallback text as arguments (the contract fixes 150 and 0.7 for
  general text, 200 and 0.5 for analysis prompts): one request; a transport failure, an
  HTTP error status and any other failure each give their error string; a success gives
  what the content path yields.
\<close>

definition submitText ::
  "remote \<Rightarrow> string \<Rightarrow> string \<Rightarrow> string \<Rightarrow> int \<Rightarrow> rat \<Rightarrow> string \<Rightarrow> request list
     \<Rightarrow> (exn + pyval) \<times> request list" where
  "submitText net API_KEY prompt model max_tokens temperature fallback sent =
     (let req = chat_request API_KEY model prompt max_tokens temperature
      in (Inr (case net (sent @ [req]) of
                 Raised m \<Rightarrow> PStr (''An error occurred: '' @ m)
               | Returned r \<Rightarrow>
                  (case raise_for_status r of
                     Inl e \<Rightarrow> PStr (''HTTP error occurred: '' @ str_exn e @ '' - '' @ response_text r)
                   | Inr u \<Rightarrow>
                      (case and_then (json r) (\<lambda>j.
                            and_then (py_get j ''choices'' (PList [PDict []])) (\<lambda>choices.
                            and_then (py_getitem0 choices) (\<lambda>choice.
                            and_then (py_get choice ''message'' (PDict [])) (\<lambda>message.
                            py_get message ''content'' (PStr fallback))))) of
                         Inl e \<Rightarrow> PStr (''An error occurred: '' @ str_exn e)
                       | Inr v \<Rightarrow> v))),
          sent @ [req]))"

section \<open>Streamlit: the page, the widgets and the script run\<close>

text \<open>
  One run of the script renders elements on the page, in order. The widget calls
  (\<open>st.text_area\<close>, \<open>st.button\<close>, \<open>st.file_uploader\<close>, \<open>st.selectbox\<close>) also return
  the user's input, which the screens below take as arguments: the text typed, whether the
  button was pressed, the bytes of the uploaded file (\<open>None\<close> when there is none).
\<close>

datatype image_source = Url string | Upload bytes

datatype element =
    PageConfig string string
  | SidebarTitle string
  | SidebarSelectbox string "string list"
  | Title string
  | Header string
  | Subheader string
  | Write string
  | Markdown string
  | Image image_source "string option"
  | Video string
  | TextArea string
  | FileUploader string "string list"
  | Button string
  | Spinner string
  | Error string
  | Warning string
  | Success string
  | Dataframe dataframe
  | LineChart "pyval list"
  | BarChart "pyval list"
  | Column nat element

text \<open>
  The state of a run: the requests sent to the remote service, the elements rendered, and
  the exception that ended the run, if any.
\<close>

record session =
  sent :: "request list"
  page :: "element list"
  raised :: "exn option"

definition session0 :: session where
  "session0 = \<lparr>sent = [], page = [], raised = None\<rparr>"

definition st :: "element \<Rightarrow> session \<Rightarrow> session" where
  "st e s = s\<lparr>page := page s @ [e]\<rparr>"

definition raise :: "exn \<Rightarrow> session \<Rightarrow> session" where
  "raise e s = s\<lparr>raised := Some e\<rparr>"

text \<open>Statements in sequence: once an exception is raised, the rest does not run.\<close>

fun run :: "(session \<Rightarrow> session) list \<Rightarrow> session \<Rightarrow> session" where
  "run [] s = s"
| "run (step # steps) s = (if raised s = None then run steps (step s) else s)"

text \<open>
  \<open>try: ... except Exception as e: handler\<close>. \<open>StopException\<close> is no subclass of
  \<open>Exception\<close> and passes through.
\<close>

definition try_except :: "(session \<Rightarrow> session) \<Rightarrow> (exn \<Rightarrow> session \<Rightarrow> session) \<Rightarrow> session \<Rightarrow> session" where
  "try_except block handler s =
     (let s' = block s
      in case raised s' of
           None \<Rightarrow> s'
         | Some StopException \<Rightarrow> s'
         | Some e \<Rightarrow> handler e (s'\<lparr>raised := None\<rparr>))"

text \<open>
  \<open>f"{v}"\<close>: a string is inserted as it is; for every other value Python's \<open>str\<close> is
  used, which is a parameter here (it involves the printing of floats).
\<close>

definition format :: "(pyval \<Rightarrow> string) \<Rightarrow> pyval \<Rightarrow> string" where
  "format str_of v = (case v of PStr s \<Rightarrow> s | _ \<Rightarrow> str_of v)"

text \<open>
  The common tail of the three single-call actions:
  \<open>if response.startswith("Error"): st.error(response) else: st.success(title); st.write(response)\<close>.
  Only strings have \<open>startswith\<close>; on any other value the attribute lookup raises.
\<close>

definition show_response :: "string \<Rightarrow> pyval \<Rightarrow> session \<Rightarrow> session" where
  "show_response title response s =
     (case response of
        PStr r \<Rightarrow>
          (if startswith r ''Error'' then st (Error r) s
           else run [st (Success title), st (Write r)] s)
      | _ \<Rightarrow> raise (AttributeError (apos @ type_name response @ apos @
                    '' object has no attribute '' @ apos @ ''startswith'' @ apos)) s)"

section \<open>Home page\<close>

definition home :: "session \<Rightarrow> session" where
  "home = run
     [st (Title ''Welcome to ConnectAssist''),
      st (Write (''\<newline>    **ConnectAssist** is an AI-powered mobile application designed to empower telecommunications field workers operating in underserved regions. Leveraging Llama 3.2''
                 @ [CHR 0xE2, CHR 0x80, CHR 0x99] @
                 ''s lightweight and multimodal capabilities, ConnectAssist provides real-time support, diagnostics, and training to enhance network deployment and maintenance efficiency.\<newline>    '')),
      st (Image (Url ''https://via.placeholder.com/800x400.png?text=ConnectAssist+Event+Thumbnail'') None)]"

section \<open>Troubleshooting assistant\<close>

text \<open>
  \<open>st.image\<close> on an uploaded file opens it with PIL, which raises
  \<open>UnidentifiedImageError\<close> on bytes that are no image it can decode. Opening is a
  parameter: it gives the exception raised, or \<open>None\<close> when the bytes decode. The run
  of the screen ends there when it raises. (On a URL, as on the other screens,
  \<open>st.image\<close> opens nothing.)
\<close>

definition troubleshooting_assistant ::
  "remote \<Rightarrow> (bytes \<Rightarrow> exn option) \<Rightarrow> string \<Rightarrow> string \<Rightarrow> bool \<Rightarrow> bytes option \<Rightarrow> bool
     \<Rightarrow> session \<Rightarrow> session" where
  "troubleshooting_assistant net image_open API_KEY issue_text get_suggestions uploaded_image analyze_image =
     run
      [st (Header ''Real-Time Troubleshooting Assistant''),
       st (Subheader ''Describe the Issue''),
       st (TextArea ''Enter a description of the problem:''),
       st (Button ''Get Suggestions''),
       (\<lambda>s. if get_suggestions then
               (if issue_text \<noteq> [] then
                  run [st (Spinner ''Processing...''),
                       (\<lambda>s. let (result, sent') =
                                    get_llama_text_response net API_KEY issue_text ''llama-3.2-chat'' (sent s);
                                  s' = s\<lparr>sent := sent'\<rparr>
                              in case result of
                                   Inl err \<Rightarrow> raise err s'
                                 | Inr response \<Rightarrow> show_response ''**Diagnostic Suggestions:**'' response s')] s
                else st (Warning ''Please enter a description of the issue.'') s)
             else s),
       st (Markdown ''---''),
       st (Subheader ''Upload an Image of the Issue''),
       st (FileUploader ''Choose an image...'' [''jpg'', ''png'', ''jpeg'']),
       (\<lambda>s. case uploaded_image of
               None \<Rightarrow> s
             | Some image_bytes \<Rightarrow>
                 run [(\<lambda>s. case image_open image_bytes of
                               Some err \<Rightarrow> raise err s
                             | None \<Rightarrow> st (Image (Upload image_bytes) (Some ''Uploaded Image.'')) s),
                      st (Button ''Analyze Image''),
                      (\<lambda>s. if analyze_image then
                              run [st (Spinner ''Analyzing image...''),
                                   (\<lambda>s. let (result, sent') =
                                                get_llama_image_response net API_KEY image_bytes ''llama-3.2-image'' (sent s);
                                              s' = s\<lparr>sent := sent'\<rparr>
                                          in case result of
                                               Inl err \<Rightarrow> raise err s'
                                             | Inr response \<Rightarrow> show_response ''**Image Analysis:**'' response s')] s
                            else s)] s)]"

section \<open>Training modules\<close>

definition training_modules :: "bool \<Rightarrow> session \<Rightarrow> session" where
  "training_modules watch_tutorial_1 =
     run
      [st (Header ''Dynamic Training Modules''),
       st (Subheader ''Interactive Tutorials''),
       st (Markdown ''\<newline>    - **Module 1:** Setting Up Network Equipment\<newline>    - **Module 2:** Troubleshooting Common Issues\<newline>    - **Module 3:** Optimizing Network Performance\<newline>    ''),
       st (Button ''Watch Tutorial 1''),
       (\<lambda>s. if watch_tutorial_1 then st (Video ''https://www.youtube.com/watch?v=dQw4w9WgXcQ'') s else s),
       st (Markdown ''---''),
       st (Subheader ''Augmented Reality Guides''),
       st (Markdown ''\<newline>    While AR integration is beyond the scope of this prototype, here's a simulated guide:\<newline>    ''),
       st (Image (Url ''https://via.placeholder.com/800x400.png?text=Simulated+AR+Guide'') (Some ''Simulated AR Guide''))]"

section \<open>Network optimization insights\<close>

text \<open>
  \<open>data.columns\<close>, \<open>data.head()\<close> (the first five rows) and \<open>data[name]\<close>, which raises
  \<open>KeyError\<close> for a name that is no column.
\<close>

fun columns :: "dataframe \<Rightarrow> string list" where
  "columns (DataFrame cols) = map fst cols"

fun head :: "dataframe \<Rightarrow> dataframe" where
  "head (DataFrame cols) = DataFrame (map (\<lambda>(name, cells). (name, take 5 cells)) cols)"

fun getitem :: "dataframe \<Rightarrow> string \<Rightarrow> exn + pyval list" where
  "getitem (DataFrame cols) name =
     (case map_of cols name of
        Some cells \<Rightarrow> Inr cells
      | None \<Rightarrow> Inl (KeyError (apos @ name @ apos)))"

text \<open>
  \<open>pd.read_csv\<close> is a parameter: it parses the uploaded bytes into a dataset or raises.
\<close>

definition network_insights ::
  "remote \<Rightarrow> (bytes \<Rightarrow> exn + dataframe) \<Rightarrow> (dataframe \<Rightarrow> exn + string) \<Rightarrow> string
     \<Rightarrow> bytes option \<Rightarrow> bool \<Rightarrow> session \<Rightarrow> session" where
  "network_insights net read_csv describe_to_json API_KEY uploaded_file analyze_data =
     run
      [st (Header ''Network Optimization Insights''),
       st (Subheader ''Upload Network Performance Data''),
       st (FileUploader ''Choose a CSV file...'' [''csv'']),
       (\<lambda>s. case uploaded_file of
               None \<Rightarrow> s
             | Some file \<Rightarrow>
                 try_except
                   (\<lambda>s. case read_csv file of
                           Inl err \<Rightarrow> raise err s
                         | Inr data \<Rightarrow>
                             run
                              [st (Write ''**Data Preview:**''),
                               st (Dataframe (head data)),
                               st (Subheader ''Performance Metrics''),
                               (\<lambda>s. if ''signal_strength'' \<in> set (columns data) then
                                       (case getitem data ''signal_strength'' of
                                          Inl err \<Rightarrow> raise err s
                                        | Inr series \<Rightarrow> st (Column 1 (LineChart series)) s)
                                     else st (Column 1 (Write ''**signal_strength** column not found.'')) s),
                               (\<lambda>s. if ''bandwidth_usage'' \<in> set (columns data) then
                                       (case getitem data ''bandwidth_usage'' of
                                          Inl err \<Rightarrow> raise err s
                                        | Inr series \<Rightarrow> st (Column 2 (BarChart series)) s)
                                     else st (Column 2 (Write ''**bandwidth_usage** column not found.'')) s),
                               st (Button ''Analyze Data''),
                               (\<lambda>s. if analyze_data then
                                       run [st (Spinner ''Analyzing data...''),
                                            (\<lambda>s. let (result, sent') =
                                                         analyze_network_data net describe_to_json API_KEY data
                                                           ''llama-3.2-analysis'' (sent s);
                                                       s' = s\<lparr>sent := sent'\<rparr>
                                                   in case result of
                                                        Inl err \<Rightarrow> raise err s'
                                                      | Inr analysis \<Rightarrow> show_response ''**Analysis Results:**'' analysis s')] s
                                     else s)] s)
                   (\<lambda>e. st (Error (''Error processing the file: '' @ str_exn e))) s)]"

section \<open>Connectivity solutions\<close>

definition connectivity_solutions ::
  "remote \<Rightarrow> (pyval \<Rightarrow> string) \<Rightarrow> string \<Rightarrow> string \<Rightarrow> bytes option \<Rightarrow> bool \<Rightarrow> session \<Rightarrow> session" where
  "connectivity_solutions net str_of API_KEY report_text uploaded_image generate_recommendations =
     run
      [st (Header ''Localized Connectivity Solutions''),
       st (Subheader ''User Reports''),
       st (TextArea ''Enter user reports or observations:''),
       st (Subheader ''Site Photos''),
       st (FileUploader ''Upload site photos...'' [''jpg'', ''png'', ''jpeg'']),
       st (Button ''Generate Recommendations''),
       (\<lambda>s. if generate_recommendations then
               (case (report_text \<noteq> [], uploaded_image) of
                  (True, Some image_bytes) \<Rightarrow>
                    run [st (Spinner ''Generating recommendations...''),
                         (\<lambda>s. let (result, sent') =
                                      get_llama_text_response net API_KEY report_text ''llama-3.2-chat'' (sent s);
                                    s' = s\<lparr>sent := sent'\<rparr>
                                in case result of
                                     Inl err \<Rightarrow> raise err s'
                                   | Inr text_response \<Rightarrow>
                                      (let (result, sent') =
                                             get_llama_image_response net API_KEY image_bytes ''llama-3.2-image'' (sent s');
                                           s'' = s'\<lparr>sent := sent'\<rparr>
                                       in case result of
                                            Inl err \<Rightarrow> raise err s''
                                          | Inr image_response \<Rightarrow>
                                             (let combined_recommendation =
                                                    format str_of text_response @ ''\<newline>\<newline>'' @
                                                    format str_of image_response
                                              in if startswith combined_recommendation ''Error'' then
                                                   st (Error combined_recommendation) s''
                                                 else run [st (Success ''**Recommendations:**''),
                                                           st (Write combined_recommendation)] s'')))] s
                | _ \<Rightarrow> st (Warning ''Please provide both user reports and site photos.'') s)
             else s)]"

section \<open>Application shell\<close>

record widgets =
  app_mode :: string
  issue_text :: string
  get_suggestions :: bool
  issue_image :: "bytes option"
  analyze_image :: bool
  watch_tutorial_1 :: bool
  uploaded_file :: "bytes option"
  analyze_data :: bool
  report_text :: string
  site_photos :: "bytes option"
  generate_recommendations :: bool

definition main ::
  "remote \<Rightarrow> (bytes \<Rightarrow> exn option) \<Rightarrow> (bytes \<Rightarrow> exn + dataframe) \<Rightarrow> (dataframe \<Rightarrow> exn + string)
     \<Rightarrow> (pyval \<Rightarrow> string) \<Rightarrow> string \<Rightarrow> widgets \<Rightarrow> session \<Rightarrow> session" where
  "main net image_open read_csv describe_to_json str_of API_KEY w =
     run
      [st (PageConfig ''ConnectAssist'' ''wide''),
       st (SidebarTitle ''ConnectAssist''),
       st (SidebarSelectbox ''Choose a Feature''
             [''Home'', ''Troubleshooting'', ''Training'', ''Network Insights'', ''Connectivity Solutions'']),
       (\<lambda>s. if app_mode w = ''Home'' then home s
             else if app_mode w = ''Troubleshooting'' then
               troubleshooting_assistant net image_open API_KEY (issue_text w) (get_suggestions w)
                 (issue_image w) (analyze_image w) s
             else if app_mode w = ''Training'' then training_modules (watch_tutorial_1 w) s
             else if app_mode w = ''Network Insights'' then
               network_insights net read_csv describe_to_json API_KEY (uploaded_file w) (analyze_data w) s
             else if app_mode w = ''Connectivity Solutions'' then
               connectivity_solutions net str_of API_KEY (report_text w) (site_photos w)
                 (generate_recommendations w) s
             else s)]"

text \<open>
  The module's top level, run once per script run: \<open>API_KEY = os.getenv("GROQ_API_KEY")\<close>
  on the process environment as \<open>load_dotenv()\<close> has left it; without a key, \<open>st.error\<close>
  and \<open>st.stop()\<close>; otherwise the definitions and, at the end, \<open>main()\<close>.
\<close>

definition script ::
  "remote \<Rightarrow> (bytes \<Rightarrow> exn option) \<Rightarrow> (bytes \<Rightarrow> exn + dataframe) \<Rightarrow> (dataframe \<Rightarrow> exn + string)
     \<Rightarrow> (pyval \<Rightarrow> string) \<Rightarrow> (string \<rightharpoonup> string) \<Rightarrow> widgets \<Rightarrow> session" where
  "script net image_open read_csv describe_to_json str_of environ w =
     (let API_KEY = environ ''GROQ_API_KEY''
      in run
          [(\<lambda>s. if API_KEY = None \<or> API_KEY = Some [] then
                   run [st (Error ''API Key not found. Please set the GROQ_API_KEY environment variable.''),
                        raise StopException] s
                 else s),
           (\<lambda>s. case API_KEY of
                   None \<Rightarrow> s
                 | Some key \<Rightarrow> main net image_open read_csv describe_to_json str_of key w s)]
          session0)"

section \<open>Notions used in the statements\<close>

text \<open>The elements that the Connectivity Solutions screen renders before its action.\<close>

definition connectivity_form :: "element list" where
  "connectivity_form =
     [Header ''Localized Connectivity Solutions'',
      Subheader ''User Reports'',
      TextArea ''Enter user reports or observations:'',
      Subheader ''Site Photos'',
      FileUploader ''Upload site photos...'' [''jpg'', ''png'', ''jpeg''],
      Button ''Generate Recommendations'']"

text \<open>The elements rendered inside the two chart columns of the Network Insights screen.\<close>

fun is_column :: "element \<Rightarrow> bool" where
  "is_column (Column n e) = True"
| "is_column e = False"

definition columns_of :: "element list \<Rightarrow> element list" where
  "columns_of es = filter is_column es"

text \<open>The cells of a column of a dataset (none for a name that is no column).\<close>

fun cells :: "dataframe \<Rightarrow> string \<Rightarrow> pyval list" where
  "cells (DataFrame cols) name = (case map_of cols name of Some c \<Rightarrow> c | None \<Rightarrow> [])"




section \<open>Concrete remotes, responses and inputs\<close>

text \<open>A remote service that gives the same outcome to every request.\<close>

definition always :: "post_outcome \<Rightarrow> remote" where
  "always outcome reqs = outcome"

definition ok_response :: "string \<Rightarrow> pyval \<Rightarrow> response" where
  "ok_response body j =
     \<lparr>status_code = 200, reason = ''OK'', url = ''https://api.groq.com/openai/v1/chat/completions'',
      response_text = body, response_json = Inr j\<rparr>"

definition reply_body :: pyval where
  "reply_body = PDict [(''choices'', PList [PDict [(''message'',
                  PDict [(''role'', PStr ''assistant''), (''content'', PStr ''Check the antenna.'')])]])]"

text \<open>Collaborators that give the same result on every input.\<close>

definition returns :: "'b \<Rightarrow> 'a \<Rightarrow> exn + 'b" where
  "returns x a = Inr x"

definition reply_response :: response where
  \<open>reply_response =
     ok_response ''{"choices": [{"message": {"role": "assistant", "content": "Check the antenna."}}]}''
       reply_body\<close>

definition empty_choices_response :: response where
  \<open>empty_choices_response = ok_response ''{"choices": []}'' (PDict [(''choices'', PList [])])\<close>

definition empty_object_response :: response where
  "empty_object_response = ok_response ''{}'' (PDict [])"

definition null_content_response :: response where
  \<open>null_content_response =
     ok_response ''{"choices": [{"message": {"role": "assistant", "content": null}}]}''
       (PDict [(''choices'', PList [PDict [(''message'',
          PDict [(''role'', PStr ''assistant''), (''content'', PNone)])]])])\<close>

definition not_found_response :: response where
  "not_found_response =
     \<lparr>status_code = 404, reason = ''Not Found'', url = ''https://api.groq.com/llama3/image'',
      response_text = ''404 page not found'',
      response_json = Inl ''Expecting value: line 1 column 1 (char 0)''\<rparr>"

definition not_modified_response :: response where
  "not_modified_response =
     \<lparr>status_code = 304, reason = ''Not Modified'',
      url = ''https://api.groq.com/openai/v1/chat/completions'',
      response_text = [],
      response_json = Inl ''Expecting value: line 1 column 1 (char 0)''\<rparr>"

definition sample_data :: dataframe where
  "sample_data = DataFrame [(''signal_strength'', [PInt (- 70)])]"

definition sample_summary :: string where
  \<open>sample_summary = ''{"signal_strength":{"count":1.0,"mean":-70.0,"std":null,"min":-70.0,"25%":-70.0,"50%":-70.0,"75%":-70.0,"max":-70.0}}''\<close>

definition refused :: post_outcome where
  "refused = Raised ''Connection refused''"

definition bad_json_response :: response where
  "bad_json_response =
     \<lparr>status_code = 200, reason = ''OK'', url = ''https://api.groq.com/openai/v1/chat/completions'',
      response_text = ''<html>ok</html>'',
      response_json = Inl ''Expecting value: line 1 column 1 (char 0)''\<rparr>"

definition home_widgets :: widgets where
  "home_widgets =
     \<lparr>app_mode = ''Home'', issue_text = [], get_suggestions = False, issue_image = None,
      analyze_image = False, watch_tutorial_1 = False, uploaded_file = None, analyze_data = False,
      report_text = [], site_photos = None, generate_recommendations = False\<rparr>"

definition no_csv :: "bytes \<Rightarrow> exn + dataframe" where
  "no_csv file = Inl (ValueError ''No columns to parse from file'')"

definition repr_none :: "pyval \<Rightarrow> string" where
  "repr_none v = ''None''"

text \<open>A remote service that answers by endpoint.\<close>

definition answers :: "post_outcome \<Rightarrow> post_outcome \<Rightarrow> remote" where
  "answers text_outcome image_outcome reqs =
     (case rev reqs of
        [] \<Rightarrow> image_outcome
      | Post u b h # earlier \<Rightarrow>
          if u = ''https://api.groq.com/openai/v1/chat/completions'' then text_outcome
          else image_outcome)"

definition photo_response :: response where
  \<open>photo_response =
     \<lparr>status_code = 200, reason = ''OK'', url = ''https://api.groq.com/llama3/image'',
      response_text = ''{"response": "Mast looks intact."}'',
      response_json = Inr (PDict [(''response'', PStr ''Mast looks intact.'')])\<rparr>\<close>

definition png_magic :: bytes where
  "png_magic = [137, 80, 78, 71]"

definition csv_file :: bytes where
  "csv_file = [115, 105, 103, 110, 97, 108, 95, 115, 116, 114, 101, 110, 103, 116, 104, 10, 45, 55, 48, 10]"

text \<open>A one-pixel PNG file, and a decoder that opens this file and no other.\<close>

definition tiny_png :: bytes where
  "tiny_png =
     [137, 80, 78, 71, 13, 10, 26, 10, 0, 0, 0, 13, 73, 72, 68, 82, 0, 0, 0, 1, 0, 0, 0, 1,
      8, 6, 0, 0, 0, 31, 21, 196, 137, 0, 0, 0, 10, 73, 68, 65, 84, 120, 156, 99, 0, 1, 0, 0,
      5, 0, 1, 13, 10, 45, 180, 0, 0, 0, 0, 73, 69, 78, 68, 174, 66, 96, 130]"

definition opens_only :: "bytes \<Rightarrow> bytes \<Rightarrow> exn option" where
  "opens_only good b =
     (if b = good then None else Some (UnidentifiedImageError ''cannot identify image file''))"


definition overloaded_response :: response where
  "overloaded_response =
     \<lparr>status_code = 503, reason = ''Service Unavailable'',
      url = ''https://api.groq.com/openai/v1/chat/completions'',
      response_text = ''upstream overloaded'',
      response_json = Inl ''Expecting value: line 1 column 1 (char 0)''\<rparr>"

section \<open>Properties of the client functions\<close>

lemma two_xx_passes: "200 \<le> status_code r \<Longrightarrow> status_code r < 300 \<Longrightarrow> raise_for_status r = Inr ()"
  by (simp add: raise_for_status_def)

lemma py_get_not_http: "py_get v k d \<noteq> Inl (HTTPError x)"
  by (simp add: py_get_def split: pyval.splits)

lemma py_getitem0_not_http: "py_getitem0 v \<noteq> Inl (HTTPError x)"
  by (cases v rule: py_getitem0.cases) simp_all

lemma json_not_http: "json r \<noteq> Inl (HTTPError x)"
  by (simp add: json_def split: sum.splits)

lemma and_then_not_http:
  "a \<noteq> Inl (HTTPError x) \<Longrightarrow> (\<And>y. f y \<noteq> Inl (HTTPError x)) \<Longrightarrow> and_then a f \<noteq> Inl (HTTPError x)"
  by (cases a) (auto simp add: and_then_def)

lemma content_path_not_http:
  "and_then (json r) (\<lambda>j.
     and_then (py_get j ''choices'' d1) (\<lambda>choices.
     and_then (py_getitem0 choices) (\<lambda>choice.
     and_then (py_get choice ''message'' d2) (\<lambda>message.
     py_get message ''content'' d3)))) \<noteq> Inl (HTTPError x)"
  by (intro and_then_not_http json_not_http py_get_not_http py_getitem0_not_http)

lemma response_path_not_http:
  "and_then (json r) (\<lambda>j. py_get j ''response'' d) \<noteq> Inl (HTTPError x)"
  by (intro and_then_not_http json_not_http py_get_not_http)

lemma raise_for_status_cases:
  "raise_for_status r = Inr () \<or> (\<exists>m. raise_for_status r = Inl (HTTPError m))"
  by (simp add: raise_for_status_def)

lemma text_is_submitText:
  "get_llama_text_response net K text model reqs =
   submitText net K text model 150 (7/10) ''No response received.'' reqs"
proof (cases "net (reqs @ [chat_request K model text 150 (7/10)])")
  case (Raised m)
  then show ?thesis
    by (simp add: get_llama_text_response_def submitText_def requests_post_def chat_request_def
        LLAMA_TEXT_API_URL_def)
next
  case (Returned r)
  from raise_for_status_cases [of r] show ?thesis
  proof
    assume ok: "raise_for_status r = Inr ()"
    show ?thesis
      using Returned ok content_path_not_http [of r "PList [PDict []]" "PDict []" "PStr ''No response received.''"]
      by (simp add: get_llama_text_response_def submitText_def requests_post_def chat_request_def
        LLAMA_TEXT_API_URL_def and_then_def [of "Inr ()"] split: sum.splits exn.splits)
  next
    assume "\<exists>m. raise_for_status r = Inl (HTTPError m)"
    then obtain m where "raise_for_status r = Inl (HTTPError m)" ..
    with Returned show ?thesis
      by (simp add: get_llama_text_response_def submitText_def requests_post_def chat_request_def
        LLAMA_TEXT_API_URL_def and_then_def [of "Inl (HTTPError m)"])
  qed
qed

lemma image_response_eq:
  "get_llama_image_response net K image_bytes model reqs =
     (Inr (case net (reqs @ [image_request K image_bytes]) of
             Raised m \<Rightarrow> PStr (''An error occurred: '' @ m)
           | Returned r \<Rightarrow>
              (case raise_for_status r of
                 Inl e \<Rightarrow> PStr (''HTTP error occurred: '' @ str_exn e @ '' - '' @ response_text r)
               | Inr u \<Rightarrow>
                  (case and_then (json r) (\<lambda>j. py_get j ''response'' (PStr ''No response received.'')) of
                     Inl e \<Rightarrow> PStr (''An error occurred: '' @ str_exn e)
                   | Inr v \<Rightarrow> v))),
      reqs @ [image_request K image_bytes])"
proof (cases "net (reqs @ [image_request K image_bytes])")
  case (Raised m)
  then show ?thesis
    by (simp add: get_llama_image_response_def requests_post_def image_request_def
        LLAMA_IMAGE_API_URL_def)
next
  case (Returned r)
  from raise_for_status_cases [of r] show ?thesis
  proof
    assume ok: "raise_for_status r = Inr ()"
    show ?thesis
      using Returned ok response_path_not_http [of r "PStr ''No response received.''"]
      by (simp add: get_llama_image_response_def requests_post_def image_request_def
        LLAMA_IMAGE_API_URL_def and_then_def [of "Inr ()"] split: sum.splits exn.splits)
  next
    assume "\<exists>m. raise_for_status r = Inl (HTTPError m)"
    then obtain m where "raise_for_status r = Inl (HTTPError m)" ..
    with Returned show ?thesis
      by (simp add: get_llama_image_response_def requests_post_def image_request_def
        LLAMA_IMAGE_API_URL_def and_then_def [of "Inl (HTTPError m)"])
  qed
qed

lemma analyze_is_submitText:
  assumes "describe_to_json data = Inr summary"
  shows "analyze_network_data net describe_to_json K data model reqs =
         submitText net K (''Analyze the following network performance data summary:\<newline>'' @ summary)
           model 200 (5 / 10) ''No analysis received.'' reqs"
proof (cases "net (reqs @ [chat_request K model
          (''Analyze the following network performance data summary:\<newline>'' @ summary) 200 (5 / 10)])")
  case (Raised m)
  then show ?thesis
    using assms
    by (simp add: analyze_network_data_def submitText_def requests_post_def chat_request_def
        LLAMA_TEXT_API_URL_def)
next
  case (Returned r)
  from raise_for_status_cases [of r] show ?thesis
  proof
    assume ok: "raise_for_status r = Inr ()"
    show ?thesis
      using assms Returned ok content_path_not_http [of r "PList [PDict []]" "PDict []" "PStr ''No analysis received.''"]
      by (simp add: analyze_network_data_def submitText_def requests_post_def chat_request_def
        LLAMA_TEXT_API_URL_def and_then_def [of "Inr ()"] split: sum.splits exn.splits)
  next
    assume "\<exists>m. raise_for_status r = Inl (HTTPError m)"
    then obtain m where "raise_for_status r = Inl (HTTPError m)" ..
    with assms Returned show ?thesis
      by (simp add: analyze_network_data_def submitText_def requests_post_def chat_request_def
        LLAMA_TEXT_API_URL_def and_then_def [of "Inl (HTTPError m)"])
  qed
qed

lemma analyze_describe_raises:
  "describe_to_json data = Inl e \<Longrightarrow>
   analyze_network_data net describe_to_json K data model reqs = (Inl e, reqs)"
  by (simp add: analyze_network_data_def)

lemma http_status_raises:
  "400 \<le> status_code r \<Longrightarrow> status_code r < 600 \<Longrightarrow> \<exists>m. raise_for_status r = Inl (HTTPError m)"
  by (simp add: raise_for_status_def)

lemma other_status_passes:
  "\<not> (400 \<le> status_code r \<and> status_code r < 600) \<Longrightarrow> raise_for_status r = Inr ()"
  by (auto simp add: raise_for_status_def)

lemma submitText_raised:
  "net (reqs @ [chat_request K model prompt n t]) = Raised m \<Longrightarrow>
   fst (submitText net K prompt model n t fb reqs) = Inr (PStr (''An error occurred: '' @ m))"
  by (simp add: submitText_def)

lemma submitText_http_error:
  assumes "net (reqs @ [chat_request K model prompt n t]) = Returned r"
    and "400 \<le> status_code r" "status_code r < 600"
  shows "\<exists>m. fst (submitText net K prompt model n t fb reqs) =
           Inr (PStr (''HTTP error occurred: '' @ m @ '' - '' @ response_text r))"
proof -
  from http_status_raises [OF assms(2,3)] obtain m where "raise_for_status r = Inl (HTTPError m)" ..
  with assms(1) show ?thesis by (simp add: submitText_def)
qed

lemma submitText_decode_error:
  assumes "net (reqs @ [chat_request K model prompt n t]) = Returned r"
    and "\<not> (400 \<le> status_code r \<and> status_code r < 600)"
    and "response_json r = Inl m"
  shows "fst (submitText net K prompt model n t fb reqs) = Inr (PStr (''An error occurred: '' @ m))"
  using assms(1,3) other_status_passes [OF assms(2)]
  by (simp add: submitText_def json_def and_then_def)

lemma submitText_returns: "\<exists>v. fst (submitText net K prompt model n t fb reqs) = Inr v"
  by (simp add: submitText_def Let_def)

lemma image_raised:
  "net (reqs @ [image_request K b]) = Raised m \<Longrightarrow>
   fst (get_llama_image_response net K b model reqs) = Inr (PStr (''An error occurred: '' @ m))"
  by (simp add: image_response_eq)

lemma image_http_error:
  assumes "net (reqs @ [image_request K b]) = Returned r"
    and "400 \<le> status_code r" "status_code r < 600"
  shows "\<exists>m. fst (get_llama_image_response net K b model reqs) =
           Inr (PStr (''HTTP error occurred: '' @ m @ '' - '' @ response_text r))"
proof -
  from http_status_raises [OF assms(2,3)] obtain m where "raise_for_status r = Inl (HTTPError m)" ..
  with assms(1) show ?thesis by (simp add: image_response_eq)
qed

lemma image_decode_error:
  assumes "net (reqs @ [image_request K b]) = Returned r"
    and "\<not> (400 \<le> status_code r \<and> status_code r < 600)"
    and "response_json r = Inl m"
  shows "fst (get_llama_image_response net K b model reqs) = Inr (PStr (''An error occurred: '' @ m))"
  using assms(1,3) other_status_passes [OF assms(2)]
  by (simp add: image_response_eq json_def and_then_def)

lemma image_returns: "\<exists>v. fst (get_llama_image_response net K b model reqs) = Inr v"
  by (simp add: image_response_eq)

lemma key_absent_fallback:
  assumes "key_absent j"
  shows "and_then (py_get j ''choices'' (PList [PDict []])) (\<lambda>choices.
         and_then (py_getitem0 choices) (\<lambda>choice.
         and_then (py_get choice ''message'' (PDict [])) (\<lambda>message.
         py_get message ''content'' (PStr fb)))) = Inr (PStr fb)"
  using assms
  by (auto simp add: key_absent_def member_def first_item_def py_get_def and_then_def
      split: pyval.splits option.splits list.splits)

lemma py_getitem0_PStr:
  "py_getitem0 (PStr s) =
     (case s of [] \<Rightarrow> Inl (IndexError ''string index out of range'') | c # cs \<Rightarrow> Inr (PStr [c]))"
  by (cases s) simp_all

lemma py_getitem0_PList:
  "py_getitem0 (PList xs) =
     (case xs of [] \<Rightarrow> Inl (IndexError ''list index out of range'') | x # ys \<Rightarrow> Inr x)"
  by (cases xs) simp_all

lemma malformed_body_error:
  assumes "expected_field j = None" and "\<not> key_absent j"
  shows "\<exists>e. and_then (py_get j ''choices'' (PList [PDict []])) (\<lambda>choices.
         and_then (py_getitem0 choices) (\<lambda>choice.
         and_then (py_get choice ''message'' (PDict [])) (\<lambda>message.
         py_get message ''content'' (PStr fb)))) = Inl e"
  using assms
  by (auto simp add: expected_field_def key_absent_def member_def first_item_def py_get_def and_then_def
      py_getitem0_PStr py_getitem0_PList
      split: pyval.splits option.splits list.splits)

text \<open>
  Claim C7. For every 2xx response whose JSON body contains a string at
  \<open>choices[0].message.content\<close>, the text-submission operation returns exactly that
  string.
\<close>

theorem text_content_returned_verbatim:
  assumes "net (reqs @ [chat_request K model text 150 (7 / 10)]) = Returned r"
    and "200 \<le> status_code r" and "status_code r < 300"
    and "response_json r = Inr j"
    and "expected_field j = Some (PStr content)"
  shows "fst (get_llama_text_response net K text model reqs) = Inr (PStr content)"
  using assms
  by (auto simp add: text_is_submitText submitText_def two_xx_passes json_def and_then_def
      expected_field_def member_def first_item_def py_get_def
      split: option.splits pyval.splits list.splits)

theorem text_content_returned_verbatim_witness:
  "always (Returned reply_response)
     ([] @ [chat_request ''key'' ''llama-3.2-chat'' ''signal drops every evening'' 150 (7 / 10)])
     = Returned reply_response
   \<and> status_code reply_response = 200
   \<and> response_json reply_response = Inr reply_body
   \<and> expected_field reply_body = Some (PStr ''Check the antenna.'')
   \<and> fst (get_llama_text_response (always (Returned reply_response)) ''key''
            ''signal drops every evening'' ''llama-3.2-chat'' [])
       = Inr (PStr ''Check the antenna.'')"
proof -
  have a: "always (Returned reply_response)
     ([] @ [chat_request ''key'' ''llama-3.2-chat'' ''signal drops every evening'' 150 (7 / 10)])
     = Returned reply_response"
    by (simp add: always_def)
  have b: "200 \<le> status_code reply_response" "status_code reply_response < 300"
    by (simp_all add: reply_response_def ok_response_def)
  have c: "response_json reply_response = Inr reply_body"
    by (simp add: reply_response_def ok_response_def)
  have d: "expected_field reply_body = Some (PStr ''Check the antenna.'')"
    by (simp add: reply_body_def expected_field_def member_def first_item_def)
  from text_content_returned_verbatim
         [where net = "always (Returned reply_response)" and reqs = "[]", OF a b c d] a c d
  show ?thesis
    by (simp add: reply_response_def ok_response_def)
qed

text \<open>
  Claim C3, as stated, fails on an empty \<open>choices\<close> list: \<open>[][0]\<close> raises
  \<open>IndexError\<close>, which the generic \<open>except\<close> clause turns into an error string.
\<close>

theorem missing_field_counterexample:
  "status_code empty_choices_response = 200
   \<and> response_json empty_choices_response = Inr (PDict [(''choices'', PList [])])
   \<and> expected_field (PDict [(''choices'', PList [])]) = None
   \<and> fst (get_llama_text_response (always (Returned empty_choices_response)) ''key''
            ''signal drops every evening'' ''llama-3.2-chat'' [])
       = Inr (PStr ''An error occurred: list index out of range'')"
  by (simp add: text_is_submitText submitText_def always_def empty_choices_response_def
      ok_response_def raise_for_status_def json_def and_then_def py_get_def
      expected_field_def member_def first_item_def)

lemma key_absent_lacks_field: "key_absent j \<Longrightarrow> expected_field j = None"
  by (auto simp add: key_absent_def expected_field_def member_def first_item_def
      split: pyval.splits option.splits list.splits)

lemma submitText_fallback:
  assumes "net (reqs @ [chat_request K model prompt n t]) = Returned r"
    and "\<not> (400 \<le> status_code r \<and> status_code r < 600)"
    and "response_json r = Inr j"
    and "key_absent j"
  shows "fst (submitText net K prompt model n t fb reqs) = Inr (PStr fb)"
  using assms(1,3) other_status_passes [OF assms(2)] key_absent_fallback [OF assms(4), of fb]
  by (simp add: submitText_def json_def and_then_def [of "Inr j"])

lemma submitText_malformed:
  assumes "net (reqs @ [chat_request K model prompt n t]) = Returned r"
    and "\<not> (400 \<le> status_code r \<and> status_code r < 600)"
    and "response_json r = Inr j"
    and "expected_field j = None" and "\<not> key_absent j"
  shows "\<exists>m. fst (submitText net K prompt model n t fb reqs) = Inr (PStr (''An error occurred: '' @ m))"
proof -
  from malformed_body_error [OF assms(4,5), of fb] obtain e where
    "and_then (py_get j ''choices'' (PList [PDict []])) (\<lambda>choices.
         and_then (py_getitem0 choices) (\<lambda>choice.
         and_then (py_get choice ''message'' (PDict [])) (\<lambda>message.
         py_get message ''content'' (PStr fb)))) = Inl e" ..
  with assms(1,3) other_status_passes [OF assms(2)] show ?thesis
    by (simp add: submitText_def json_def and_then_def [of "Inr j"])
qed

text \<open>
  Claim C3, amended. For every 2xx response whose JSON body is an object without
  \<open>choices\<close>, or whose first choice is an object without \<open>message\<close>, or whose
  message is an object without \<open>content\<close>, the text-submission operation returns
  exactly \<open>No response received.\<close>; for every other body that lacks the field (a body
  that is no object, an empty or non-list \<open>choices\<close>, a choice or message that is no
  object) it returns a string that starts with \<open>An error occurred: \<close>.
\<close>

theorem missing_key_gives_fallback:
  assumes "net (reqs @ [chat_request K model text 150 (7 / 10)]) = Returned r"
    and "200 \<le> status_code r" and "status_code r < 300"
    and "response_json r = Inr j"
  shows "(key_absent j \<longrightarrow>
            fst (get_llama_text_response net K text model reqs) = Inr (PStr ''No response received.''))
       \<and> (expected_field j = None \<and> \<not> key_absent j \<longrightarrow>
            (\<exists>m. fst (get_llama_text_response net K text model reqs)
                   = Inr (PStr (''An error occurred: '' @ m))))"
proof -
  from assms(2,3) have st: "\<not> (400 \<le> status_code r \<and> status_code r < 600)" by simp
  show ?thesis
    using submitText_fallback [where net = net and reqs = reqs, OF assms(1) st assms(4)]
      submitText_malformed [where net = net and reqs = reqs, OF assms(1) st assms(4)]
    by (simp add: text_is_submitText)
qed

theorem missing_key_gives_fallback_witness:
  "key_absent (PDict [])
   \<and> fst (get_llama_text_response (always (Returned empty_object_response)) ''key''
            ''signal drops every evening'' ''llama-3.2-chat'' [])
       = Inr (PStr ''No response received.'')
   \<and> expected_field (PDict [(''choices'', PList [])]) = None
   \<and> \<not> key_absent (PDict [(''choices'', PList [])])
   \<and> (\<exists>m. fst (get_llama_text_response (always (Returned empty_choices_response)) ''key''
            ''signal drops every evening'' ''llama-3.2-chat'' [])
       = Inr (PStr (''An error occurred: '' @ m)))"
proof -
  have a: "key_absent (PDict [])"
    by (simp add: key_absent_def member_def)
  have b: "expected_field (PDict [(''choices'', PList [])]) = None"
    "\<not> key_absent (PDict [(''choices'', PList [])])"
    by (simp_all add: expected_field_def key_absent_def member_def first_item_def)
  have c: "always (Returned empty_object_response)
             ([] @ [chat_request ''key'' ''llama-3.2-chat'' ''signal drops every evening'' 150 (7 / 10)])
           = Returned empty_object_response"
    "always (Returned empty_choices_response)
             ([] @ [chat_request ''key'' ''llama-3.2-chat'' ''signal drops every evening'' 150 (7 / 10)])
           = Returned empty_choices_response"
    by (simp_all add: always_def)
  have d: "200 \<le> status_code empty_object_response" "status_code empty_object_response < 300"
    "response_json empty_object_response = Inr (PDict [])"
    "200 \<le> status_code empty_choices_response" "status_code empty_choices_response < 300"
    "response_json empty_choices_response = Inr (PDict [(''choices'', PList [])])"
    by (simp_all add: empty_object_response_def empty_choices_response_def ok_response_def)
  from missing_key_gives_fallback
         [where net = "always (Returned empty_object_response)" and reqs = "[]", OF c(1) d(1,2,3)]
       missing_key_gives_fallback
         [where net = "always (Returned empty_choices_response)" and reqs = "[]", OF c(2) d(4,5,6)]
       a b
  show ?thesis by blast
qed

text \<open>
  Claim C5, amended. For every remote response with a status from 400 to 599, each client
  operation (text submission, image submission, and tabular analysis once the summary is
  computed) returns a string that starts with \<open>HTTP error occurred: \<close> and ends with
  the raw response body.
\<close>

theorem http_error_status_gives_http_error_string:
  assumes "400 \<le> status_code r" and "status_code r < 600"
  shows "(net (reqs @ [chat_request K model prompt 150 (7 / 10)]) = Returned r \<longrightarrow>
            (\<exists>m. fst (get_llama_text_response net K prompt model reqs)
                   = Inr (PStr (''HTTP error occurred: '' @ m @ '' - '' @ response_text r))))
       \<and> (net (reqs @ [image_request K image_bytes]) = Returned r \<longrightarrow>
            (\<exists>m. fst (get_llama_image_response net K image_bytes model reqs)
                   = Inr (PStr (''HTTP error occurred: '' @ m @ '' - '' @ response_text r))))
       \<and> (describe_to_json data = Inr summary
            \<and> net (reqs @ [chat_request K model
                   (''Analyze the following network performance data summary:\<newline>'' @ summary)
                   200 (5 / 10)]) = Returned r \<longrightarrow>
            (\<exists>m. fst (analyze_network_data net describe_to_json K data model reqs)
                   = Inr (PStr (''HTTP error occurred: '' @ m @ '' - '' @ response_text r))))"
proof (intro conjI impI)
  assume "net (reqs @ [chat_request K model prompt 150 (7 / 10)]) = Returned r"
  from submitText_http_error [where net = net and reqs = reqs, OF this assms]
  show "\<exists>m. fst (get_llama_text_response net K prompt model reqs)
                   = Inr (PStr (''HTTP error occurred: '' @ m @ '' - '' @ response_text r))"
    by (simp add: text_is_submitText)
next
  assume "net (reqs @ [image_request K image_bytes]) = Returned r"
  from image_http_error [where net = net and reqs = reqs, OF this assms]
  show "\<exists>m. fst (get_llama_image_response net K image_bytes model reqs)
                   = Inr (PStr (''HTTP error occurred: '' @ m @ '' - '' @ response_text r))" .
next
  assume a: "describe_to_json data = Inr summary
            \<and> net (reqs @ [chat_request K model
                   (''Analyze the following network performance data summary:\<newline>'' @ summary)
                   200 (5 / 10)]) = Returned r"
  then have s: "describe_to_json data = Inr summary" and
    n: "net (reqs @ [chat_request K model
                   (''Analyze the following network performance data summary:\<newline>'' @ summary)
                   200 (5 / 10)]) = Returned r" by simp_all
  from submitText_http_error [where net = net and reqs = reqs, OF n assms]
  show "\<exists>m. fst (analyze_network_data net describe_to_json K data model reqs)
                   = Inr (PStr (''HTTP error occurred: '' @ m @ '' - '' @ response_text r))"
    by (simp add: analyze_is_submitText [where describe_to_json = describe_to_json and data = data, OF s])
qed

theorem http_error_status_gives_http_error_string_witness:
  "status_code not_found_response = 404
   \<and> (\<exists>m. fst (get_llama_text_response (always (Returned not_found_response)) ''key''
                  ''signal drops every evening'' ''llama-3.2-chat'' [])
            = Inr (PStr (''HTTP error occurred: '' @ m @ '' - 404 page not found'')))
   \<and> (\<exists>m. fst (get_llama_image_response (always (Returned not_found_response)) ''key''
                  [137, 80, 78, 71] ''llama-3.2-image'' [])
            = Inr (PStr (''HTTP error occurred: '' @ m @ '' - 404 page not found'')))
   \<and> (\<exists>m. fst (analyze_network_data (always (Returned not_found_response)) (returns sample_summary)
                  ''key'' sample_data ''llama-3.2-analysis'' [])
            = Inr (PStr (''HTTP error occurred: '' @ m @ '' - 404 page not found'')))"
proof -
  have a: "400 \<le> status_code not_found_response" "status_code not_found_response < 600"
    "status_code not_found_response = 404"
    "response_text not_found_response = ''404 page not found''"
    by (simp_all add: not_found_response_def)
  from http_error_status_gives_http_error_string
         [where net = "always (Returned not_found_response)" and reqs = "[]"
            and describe_to_json = "returns sample_summary" and summary = sample_summary
            and K = "''key''" and prompt = "''signal drops every evening''"
            and model = "''llama-3.2-chat''" and image_bytes = "[137, 80, 78, 71]"
            and data = sample_data, OF a(1,2)]
       http_error_status_gives_http_error_string
         [where net = "always (Returned not_found_response)" and reqs = "[]"
            and describe_to_json = "returns sample_summary" and summary = sample_summary
            and K = "''key''" and prompt = "''signal drops every evening''"
            and model = "''llama-3.2-image''" and image_bytes = "[137, 80, 78, 71]"
            and data = sample_data, OF a(1,2)]
       http_error_status_gives_http_error_string
         [where net = "always (Returned not_found_response)" and reqs = "[]"
            and describe_to_json = "returns sample_summary" and summary = sample_summary
            and K = "''key''" and prompt = "''signal drops every evening''"
            and model = "''llama-3.2-analysis''" and image_bytes = "[137, 80, 78, 71]"
            and data = sample_data, OF a(1,2)]
       a(3,4)
  show ?thesis by (simp add: always_def returns_def)
qed

text \<open>
  Claim C5, as stated, fails on a non-2xx status below 400: \<open>raise_for_status\<close> lets
  304 pass, and the empty body then fails to parse.
\<close>

theorem non_2xx_status_counterexample:
  "status_code not_modified_response = 304
   \<and> fst (get_llama_text_response (always (Returned not_modified_response)) ''key''
            ''signal drops every evening'' ''llama-3.2-chat'' [])
       = Inr (PStr ''An error occurred: Expecting value: line 1 column 1 (char 0)'')"
  by (simp add: text_is_submitText submitText_def always_def not_modified_response_def
      raise_for_status_def json_def and_then_def)

lemma image_malformed:
  assumes "net (reqs @ [image_request K b]) = Returned r"
    and "\<not> (400 \<le> status_code r \<and> status_code r < 600)"
    and "response_json r = Inr j"
    and "\<forall>kvs. j \<noteq> PDict kvs"
  shows "\<exists>m. fst (get_llama_image_response net K b model reqs) = Inr (PStr (''An error occurred: '' @ m))"
  using assms(1,3,4) other_status_passes [OF assms(2)]
  by (cases j) (simp_all add: image_response_eq json_def and_then_def py_get_def)

text \<open>
  Claim C6 at a 2xx response whose content field holds \<open>null\<close>. The default of
  \<open>.get("content", ...)\<close> applies to an absent key only, so the text-submission
  operation returns \<open>None\<close>, which is no string; the Troubleshooting screen then calls
  \<open>response.startswith\<close> on it, and the \<open>AttributeError\<close> ends the run.
\<close>

theorem null_content_returns_none_and_screen_raises:
  "fst (get_llama_text_response (always (Returned null_content_response)) ''key''
          ''signal drops every evening'' ''llama-3.2-chat'' []) = Inr PNone
   \<and> raised (troubleshooting_assistant (always (Returned null_content_response))
               (opens_only tiny_png) ''key''
               ''signal drops every evening'' True None False session0)
       = Some (AttributeError (apos @ ''NoneType'' @ apos @ '' object has no attribute '' @
                               apos @ ''startswith'' @ apos))"
  by (simp add: text_is_submitText submitText_def always_def null_content_response_def
      ok_response_def raise_for_status_def json_def and_then_def py_get_def
      troubleshooting_assistant_def session0_def st_def raise_def show_response_def)

text \<open>
  What does hold of the failure paths: for every exception of \<open>requests.post\<close>, every
  body that is no JSON and every body of the wrong shape, each client function returns a
  string that starts with \<open>An error occurred: \<close>; the text and image functions never
  raise, and the tabular analysis never raises once its summary has been computed.
\<close>

lemma failures_give_error_string:
  "(net (reqs @ [chat_request K model prompt 150 (7 / 10)]) = Raised m \<longrightarrow>
      fst (get_llama_text_response net K prompt model reqs) = Inr (PStr (''An error occurred: '' @ m)))
   \<and> (net (reqs @ [image_request K image_bytes]) = Raised m \<longrightarrow>
      fst (get_llama_image_response net K image_bytes model reqs) = Inr (PStr (''An error occurred: '' @ m)))
   \<and> (describe_to_json data = Inr summary
        \<and> net (reqs @ [chat_request K model
               (''Analyze the following network performance data summary:\<newline>'' @ summary)
               200 (5 / 10)]) = Raised m \<longrightarrow>
      fst (analyze_network_data net describe_to_json K data model reqs)
        = Inr (PStr (''An error occurred: '' @ m)))
   \<and> (net (reqs @ [chat_request K model prompt 150 (7 / 10)]) = Returned r
        \<and> \<not> (400 \<le> status_code r \<and> status_code r < 600) \<and> response_json r = Inl m \<longrightarrow>
      fst (get_llama_text_response net K prompt model reqs) = Inr (PStr (''An error occurred: '' @ m)))
   \<and> (net (reqs @ [image_request K image_bytes]) = Returned r
        \<and> \<not> (400 \<le> status_code r \<and> status_code r < 600) \<and> response_json r = Inl m \<longrightarrow>
      fst (get_llama_image_response net K image_bytes model reqs) = Inr (PStr (''An error occurred: '' @ m)))
   \<and> (describe_to_json data = Inr summary
        \<and> net (reqs @ [chat_request K model
               (''Analyze the following network performance data summary:\<newline>'' @ summary)
               200 (5 / 10)]) = Returned r
        \<and> \<not> (400 \<le> status_code r \<and> status_code r < 600) \<and> response_json r = Inl m \<longrightarrow>
      fst (analyze_network_data net describe_to_json K data model reqs)
        = Inr (PStr (''An error occurred: '' @ m)))
   \<and> (net (reqs @ [chat_request K model prompt 150 (7 / 10)]) = Returned r
        \<and> \<not> (400 \<le> status_code r \<and> status_code r < 600) \<and> response_json r = Inr j
        \<and> expected_field j = None \<and> \<not> key_absent j \<longrightarrow>
      (\<exists>m'. fst (get_llama_text_response net K prompt model reqs)
              = Inr (PStr (''An error occurred: '' @ m'))))
   \<and> (net (reqs @ [image_request K image_bytes]) = Returned r
        \<and> \<not> (400 \<le> status_code r \<and> status_code r < 600) \<and> response_json r = Inr j
        \<and> (\<forall>kvs. j \<noteq> PDict kvs) \<longrightarrow>
      (\<exists>m'. fst (get_llama_image_response net K image_bytes model reqs)
              = Inr (PStr (''An error occurred: '' @ m'))))
   \<and> (describe_to_json data = Inr summary
        \<and> net (reqs @ [chat_request K model
               (''Analyze the following network performance data summary:\<newline>'' @ summary)
               200 (5 / 10)]) = Returned r
        \<and> \<not> (400 \<le> status_code r \<and> status_code r < 600) \<and> response_json r = Inr j
        \<and> expected_field j = None \<and> \<not> key_absent j \<longrightarrow>
      (\<exists>m'. fst (analyze_network_data net describe_to_json K data model reqs)
              = Inr (PStr (''An error occurred: '' @ m'))))
   \<and> (\<exists>v. fst (get_llama_text_response net K prompt model reqs) = Inr v)
   \<and> (\<exists>v. fst (get_llama_image_response net K image_bytes model reqs) = Inr v)
   \<and> (describe_to_json data = Inr summary \<longrightarrow>
        (\<exists>v. fst (analyze_network_data net describe_to_json K data model reqs) = Inr v))"
proof (intro conjI impI)
  assume "net (reqs @ [chat_request K model prompt 150 (7 / 10)]) = Raised m"
  then show "fst (get_llama_text_response net K prompt model reqs) = Inr (PStr (''An error occurred: '' @ m))"
    by (simp add: text_is_submitText submitText_raised)
next
  assume "net (reqs @ [image_request K image_bytes]) = Raised m"
  then show "fst (get_llama_image_response net K image_bytes model reqs) = Inr (PStr (''An error occurred: '' @ m))"
    by (rule image_raised)
next
  assume "describe_to_json data = Inr summary
        \<and> net (reqs @ [chat_request K model
               (''Analyze the following network performance data summary:\<newline>'' @ summary)
               200 (5 / 10)]) = Raised m"
  then show "fst (analyze_network_data net describe_to_json K data model reqs)
        = Inr (PStr (''An error occurred: '' @ m))"
    by (simp add: analyze_is_submitText [where describe_to_json = describe_to_json and data = data]
        submitText_raised)
next
  assume "net (reqs @ [chat_request K model prompt 150 (7 / 10)]) = Returned r
        \<and> \<not> (400 \<le> status_code r \<and> status_code r < 600) \<and> response_json r = Inl m"
  then show "fst (get_llama_text_response net K prompt model reqs) = Inr (PStr (''An error occurred: '' @ m))"
    by (simp add: text_is_submitText submitText_decode_error [where net = net and reqs = reqs and r = r])
next
  assume "net (reqs @ [image_request K image_bytes]) = Returned r
        \<and> \<not> (400 \<le> status_code r \<and> status_code r < 600) \<and> response_json r = Inl m"
  then show "fst (get_llama_image_response net K image_bytes model reqs) = Inr (PStr (''An error occurred: '' @ m))"
    by (simp add: image_decode_error [where net = net and reqs = reqs and r = r])
next
  assume "describe_to_json data = Inr summary
        \<and> net (reqs @ [chat_request K model
               (''Analyze the following network performance data summary:\<newline>'' @ summary)
               200 (5 / 10)]) = Returned r
        \<and> \<not> (400 \<le> status_code r \<and> status_code r < 600) \<and> response_json r = Inl m"
  then show "fst (analyze_network_data net describe_to_json K data model reqs)
        = Inr (PStr (''An error occurred: '' @ m))"
    by (simp add: analyze_is_submitText [where describe_to_json = describe_to_json and data = data]
        submitText_decode_error [where net = net and reqs = reqs and r = r])
next
  assume "net (reqs @ [chat_request K model prompt 150 (7 / 10)]) = Returned r
        \<and> \<not> (400 \<le> status_code r \<and> status_code r < 600) \<and> response_json r = Inr j
        \<and> expected_field j = None \<and> \<not> key_absent j"
  then have a: "net (reqs @ [chat_request K model prompt 150 (7 / 10)]) = Returned r"
    and b: "\<not> (400 \<le> status_code r \<and> status_code r < 600)" and c: "response_json r = Inr j"
    and d: "expected_field j = None" and e: "\<not> key_absent j" by simp_all
  from submitText_malformed [where net = net and reqs = reqs, OF a b c d e]
  show "\<exists>m'. fst (get_llama_text_response net K prompt model reqs)
              = Inr (PStr (''An error occurred: '' @ m'))"
    unfolding text_is_submitText .
next
  assume "net (reqs @ [image_request K image_bytes]) = Returned r
        \<and> \<not> (400 \<le> status_code r \<and> status_code r < 600) \<and> response_json r = Inr j
        \<and> (\<forall>kvs. j \<noteq> PDict kvs)"
  then have a: "net (reqs @ [image_request K image_bytes]) = Returned r"
    and b: "\<not> (400 \<le> status_code r \<and> status_code r < 600)" and c: "response_json r = Inr j"
    and d: "\<forall>kvs. j \<noteq> PDict kvs" by simp_all
  from image_malformed [where net = net and reqs = reqs, OF a b c d]
  show "\<exists>m'. fst (get_llama_image_response net K image_bytes model reqs)
              = Inr (PStr (''An error occurred: '' @ m'))" .
next
  assume "describe_to_json data = Inr summary
        \<and> net (reqs @ [chat_request K model
               (''Analyze the following network performance data summary:\<newline>'' @ summary)
               200 (5 / 10)]) = Returned r
        \<and> \<not> (400 \<le> status_code r \<and> status_code r < 600) \<and> response_json r = Inr j
        \<and> expected_field j = None \<and> \<not> key_absent j"
  then have s: "describe_to_json data = Inr summary"
    and a: "net (reqs @ [chat_request K model
               (''Analyze the following network performance data summary:\<newline>'' @ summary)
               200 (5 / 10)]) = Returned r"
    and b: "\<not> (400 \<le> status_code r \<and> status_code r < 600)" and c: "response_json r = Inr j"
    and d: "expected_field j = None" and e: "\<not> key_absent j" by simp_all
  from submitText_malformed [where net = net and reqs = reqs, OF a b c d e]
  show "\<exists>m'. fst (analyze_network_data net describe_to_json K data model reqs)
              = Inr (PStr (''An error occurred: '' @ m'))"
    unfolding analyze_is_submitText
                [where describe_to_json = describe_to_json and data = data, OF s] .
next
  show "\<exists>v. fst (get_llama_text_response net K prompt model reqs) = Inr v"
    by (simp add: text_is_submitText submitText_returns)
next
  show "\<exists>v. fst (get_llama_image_response net K image_bytes model reqs) = Inr v"
    by (rule image_returns)
next
  assume "describe_to_json data = Inr summary"
  then show "\<exists>v. fst (analyze_network_data net describe_to_json K data model reqs) = Inr v"
    by (simp add: analyze_is_submitText [where describe_to_json = describe_to_json and data = data]
        submitText_returns)
qed


lemma failures_give_error_string_at_refused_connection:
  "fst (get_llama_text_response (always refused) ''key'' ''signal drops every evening''
          ''llama-3.2-chat'' []) = Inr (PStr ''An error occurred: Connection refused'')
   \<and> fst (get_llama_image_response (always refused) ''key'' [137, 80, 78, 71]
          ''llama-3.2-chat'' []) = Inr (PStr ''An error occurred: Connection refused'')
   \<and> fst (analyze_network_data (always refused) (returns sample_summary) ''key'' sample_data
          ''llama-3.2-chat'' []) = Inr (PStr ''An error occurred: Connection refused'')
   \<and> fst (get_llama_text_response (always (Returned bad_json_response)) ''key''
          ''signal drops every evening'' ''llama-3.2-chat'' [])
       = Inr (PStr ''An error occurred: Expecting value: line 1 column 1 (char 0)'')"
  using failures_give_error_string
          [where net = "always refused" and reqs = "[]" and K = "''key''"
             and prompt = "''signal drops every evening''" and model = "''llama-3.2-chat''"
             and image_bytes = "[137, 80, 78, 71]" and describe_to_json = "returns sample_summary"
             and data = sample_data and summary = sample_summary and m = "''Connection refused''"]
        failures_give_error_string
          [where net = "always (Returned bad_json_response)" and reqs = "[]" and K = "''key''"
             and prompt = "''signal drops every evening''" and model = "''llama-3.2-chat''"
             and r = bad_json_response
             and m = "''Expecting value: line 1 column 1 (char 0)''"]
  by (simp add: always_def refused_def returns_def bad_json_response_def)

text \<open>
  Claim C2, as stated, fails on the success fallback: on a 2xx response without
  \<open>choices\<close> the tabular analysis returns \<open>No analysis received.\<close>, the text
  submission \<open>No response received.\<close>.
\<close>

theorem analysis_fallback_counterexample:
  "fst (analyze_network_data (always (Returned empty_object_response)) (returns sample_summary)
          ''key'' sample_data ''llama-3.2-analysis'' [])
     = Inr (PStr ''No analysis received.'')
   \<and> fst (get_llama_text_response (always (Returned empty_object_response)) ''key''
            (''Analyze the following network performance data summary:\<newline>'' @ sample_summary)
            ''llama-3.2-analysis'' [])
     = Inr (PStr ''No response received.'')"
  by (simp add: analyze_is_submitText [where summary = sample_summary] text_is_submitText
      submitText_def returns_def always_def empty_object_response_def ok_response_def
      raise_for_status_def json_def and_then_def py_get_def)

text \<open>
  Claim C2, amended. For every dataset whose summary can be computed, the tabular analysis
  is equal, in the request it sends and in what it returns, to the text-submission
  operation applied to the prompt \<open>Analyze the following network performance data summary:\<close>,
  a newline and the serialised summary, with max_tokens 200, temperature 0.5 and the
  fallback text \<open>No analysis received.\<close>; the text-submission operation of the client is
  the same operation with 150, 0.7 and \<open>No response received.\<close>.
\<close>

theorem analyze_network_data_refines_submitText:
  "(describe_to_json data = Inr summary \<longrightarrow>
      analyze_network_data net describe_to_json K data model reqs =
      submitText net K (''Analyze the following network performance data summary:\<newline>'' @ summary)
        model 200 (5 / 10) ''No analysis received.'' reqs)
   \<and> get_llama_text_response net K prompt model reqs =
      submitText net K prompt model 150 (7 / 10) ''No response received.'' reqs"
  by (simp add: text_is_submitText
      analyze_is_submitText [where describe_to_json = describe_to_json and data = data])

theorem analyze_network_data_refines_submitText_witness:
  "returns sample_summary sample_data = Inr sample_summary
   \<and> analyze_network_data (always (Returned reply_response)) (returns sample_summary) ''key''
        sample_data ''llama-3.2-analysis'' []
     = (Inr (PStr ''Check the antenna.''),
        [chat_request ''key'' ''llama-3.2-analysis''
           (''Analyze the following network performance data summary:\<newline>'' @ sample_summary)
           200 (5 / 10)])"
  using analyze_network_data_refines_submitText
          [where net = "always (Returned reply_response)" and describe_to_json = "returns sample_summary"
             and data = sample_data and summary = sample_summary and reqs = "[]"
             and K = "''key''" and model = "''llama-3.2-analysis''"]
  by (simp add: returns_def submitText_def always_def reply_response_def reply_body_def
      ok_response_def raise_for_status_def json_def and_then_def py_get_def)

section \<open>Properties of the screens\<close>

lemma st_fields [simp]:
  "sent (st e s) = sent s" "page (st e s) = page s @ [e]" "raised (st e s) = raised s"
  by (simp_all add: st_def)

lemma raise_fields [simp]:
  "sent (raise e s) = sent s" "page (raise e s) = page s" "raised (raise e s) = Some e"
  by (simp_all add: raise_def)

lemma text_call:
  "\<exists>v. get_llama_text_response net K prompt model reqs =
         (Inr v, reqs @ [chat_request K model prompt 150 (7 / 10)])"
  by (simp add: text_is_submitText submitText_def Let_def)

lemma image_call:
  "\<exists>v. get_llama_image_response net K b model reqs = (Inr v, reqs @ [image_request K b])"
  by (simp add: image_response_eq)

text \<open>
  Claim C9. If the credential variable is unset or empty at startup, the run ends with the
  error on the page and nothing else: no request, no element of any screen, whatever the
  widgets hold. If it is set, the run is that of \<open>main\<close>, which dispatches to the screen
  selected.
\<close>

theorem missing_credential_halts_startup:
  "(environ ''GROQ_API_KEY'' = None \<or> environ ''GROQ_API_KEY'' = Some [] \<longrightarrow>
      script net image_open read_csv describe_to_json str_of environ w =
        \<lparr>sent = [],
         page = [Error ''API Key not found. Please set the GROQ_API_KEY environment variable.''],
         raised = Some StopException\<rparr>)
   \<and> (environ ''GROQ_API_KEY'' = Some key \<and> key \<noteq> [] \<longrightarrow>
      script net image_open read_csv describe_to_json str_of environ w =
        main net image_open read_csv describe_to_json str_of key w session0)"
  by (auto simp add: script_def session0_def st_def raise_def)

theorem missing_credential_halts_startup_witness:
  "script (always refused) (opens_only tiny_png) no_csv (returns sample_summary) repr_none
     Map.empty home_widgets =
     \<lparr>sent = [],
      page = [Error ''API Key not found. Please set the GROQ_API_KEY environment variable.''],
      raised = Some StopException\<rparr>
   \<and> script (always refused) (opens_only tiny_png) no_csv (returns sample_summary) repr_none
        [''GROQ_API_KEY'' \<mapsto> ''gsk_test''] home_widgets =
      main (always refused) (opens_only tiny_png) no_csv (returns sample_summary) repr_none
        ''gsk_test'' home_widgets session0"
  using missing_credential_halts_startup
          [where environ = Map.empty and net = "always refused" and read_csv = no_csv
             and image_open = "opens_only tiny_png"
             and describe_to_json = "returns sample_summary" and str_of = repr_none
             and w = home_widgets]
        missing_credential_halts_startup
          [where environ = "[''GROQ_API_KEY'' \<mapsto> ''gsk_test'']" and key = "''gsk_test''"
             and net = "always refused" and read_csv = no_csv
             and image_open = "opens_only tiny_png"
             and describe_to_json = "returns sample_summary" and str_of = repr_none
             and w = home_widgets]
  by simp

text \<open>
  Claim C4. On the Connectivity Solutions screen, when the action is triggered with the
  text report empty or the image absent, no request is sent and the warning is shown; when
  both are present, exactly one text submission and one image submission are sent, in this
  order, and the string rendered (by \<open>st.write\<close>, or by \<open>st.error\<close> when it starts with
  \<open>Error\<close>) is the text result, a blank line and the image result, each inserted as
  \<open>f"{...}"\<close> inserts it.
\<close>

theorem connectivity_solutions_requests_and_output:
  assumes "raised s = None"
  shows "(report = [] \<or> photo = None \<longrightarrow>
            sent (connectivity_solutions net str_of K report photo True s) = sent s
            \<and> page (connectivity_solutions net str_of K report photo True s) =
                page s @ connectivity_form @
                [Warning ''Please provide both user reports and site photos.''])
       \<and> (report \<noteq> [] \<and> photo = Some image_bytes \<longrightarrow>
            sent (connectivity_solutions net str_of K report photo True s) =
              sent s @ [chat_request K ''llama-3.2-chat'' report 150 (7 / 10),
                        image_request K image_bytes]
            \<and> (\<exists>text_response image_response.
                  fst (get_llama_text_response net K report ''llama-3.2-chat'' (sent s))
                    = Inr text_response
                  \<and> fst (get_llama_image_response net K image_bytes ''llama-3.2-image''
                           (sent s @ [chat_request K ''llama-3.2-chat'' report 150 (7 / 10)]))
                    = Inr image_response
                  \<and> page (connectivity_solutions net str_of K report photo True s) =
                      page s @ connectivity_form @ [Spinner ''Generating recommendations...''] @
                      (let combined = format str_of text_response @ ''\<newline>\<newline>'' @
                                      format str_of image_response
                       in if startswith combined ''Error'' then [Error combined]
                          else [Success ''**Recommendations:**'', Write combined])))"
proof (intro conjI impI)
  assume "report = [] \<or> photo = None"
  then show "sent (connectivity_solutions net str_of K report photo True s) = sent s"
    using assms
    by (auto simp add: connectivity_solutions_def split: option.splits bool.splits)
next
  assume "report = [] \<or> photo = None"
  then show "page (connectivity_solutions net str_of K report photo True s) =
                page s @ connectivity_form @
                [Warning ''Please provide both user reports and site photos.'']"
    using assms
    by (auto simp add: connectivity_solutions_def connectivity_form_def split: option.splits bool.splits)
next
  assume a: "report \<noteq> [] \<and> photo = Some image_bytes"
  obtain t where t: "get_llama_text_response net K report ''llama-3.2-chat'' (sent s) =
      (Inr t, sent s @ [chat_request K ''llama-3.2-chat'' report 150 (7 / 10)])"
    using text_call by blast
  obtain i where i: "get_llama_image_response net K image_bytes ''llama-3.2-image''
        (sent s @ [chat_request K ''llama-3.2-chat'' report 150 (7 / 10)]) =
      (Inr i, sent s @ [chat_request K ''llama-3.2-chat'' report 150 (7 / 10)] @ [image_request K image_bytes])"
    using image_call [of net K image_bytes "''llama-3.2-image''" "sent s @ [chat_request K ''llama-3.2-chat'' report 150 (7 / 10)]"]
    by auto
  show "sent (connectivity_solutions net str_of K report photo True s) =
              sent s @ [chat_request K ''llama-3.2-chat'' report 150 (7 / 10),
                        image_request K image_bytes]"
    using assms a t i
    by (simp add: connectivity_solutions_def Let_def)
  show "\<exists>text_response image_response.
                  fst (get_llama_text_response net K report ''llama-3.2-chat'' (sent s))
                    = Inr text_response
                  \<and> fst (get_llama_image_response net K image_bytes ''llama-3.2-image''
                           (sent s @ [chat_request K ''llama-3.2-chat'' report 150 (7 / 10)]))
                    = Inr image_response
                  \<and> page (connectivity_solutions net str_of K report photo True s) =
                      page s @ connectivity_form @ [Spinner ''Generating recommendations...''] @
                      (let combined = format str_of text_response @ ''\<newline>\<newline>'' @
                                      format str_of image_response
                       in if startswith combined ''Error'' then [Error combined]
                          else [Success ''**Recommendations:**'', Write combined])"
    using assms a t i
    by (simp add: connectivity_solutions_def connectivity_form_def Let_def)
qed


theorem connectivity_solutions_requests_and_output_witness:
  "raised session0 = None
   \<and> sent (connectivity_solutions (answers (Returned reply_response) (Returned photo_response))
              repr_none ''key'' [] (Some png_magic) True session0) = []
   \<and> page (connectivity_solutions (answers (Returned reply_response) (Returned photo_response))
              repr_none ''key'' [] (Some png_magic) True session0)
       = connectivity_form @ [Warning ''Please provide both user reports and site photos.'']
   \<and> sent (connectivity_solutions (answers (Returned reply_response) (Returned photo_response))
              repr_none ''key'' ''tower down'' (Some png_magic) True session0)
       = [chat_request ''key'' ''llama-3.2-chat'' ''tower down'' 150 (7 / 10),
          image_request ''key'' png_magic]
   \<and> page (connectivity_solutions (answers (Returned reply_response) (Returned photo_response))
              repr_none ''key'' ''tower down'' (Some png_magic) True session0)
       = connectivity_form @
         [Spinner ''Generating recommendations...'', Success ''**Recommendations:**'',
          Write ''Check the antenna.\<newline>\<newline>Mast looks intact.'']"
proof -
  have r: "raised session0 = None" by (simp add: session0_def)
  have t: "fst (get_llama_text_response (answers (Returned reply_response) (Returned photo_response))
                 ''key'' ''tower down'' ''llama-3.2-chat'' (sent session0))
           = Inr (PStr ''Check the antenna.'')"
    by (simp add: text_is_submitText submitText_def answers_def chat_request_def session0_def
        reply_response_def reply_body_def ok_response_def raise_for_status_def json_def
        and_then_def py_get_def)
  have i: "fst (get_llama_image_response (answers (Returned reply_response) (Returned photo_response))
                 ''key'' png_magic ''llama-3.2-image''
                 (sent session0 @ [chat_request ''key'' ''llama-3.2-chat'' ''tower down'' 150 (7 / 10)]))
           = Inr (PStr ''Mast looks intact.'')"
    by (simp add: image_response_eq answers_def image_request_def session0_def
        photo_response_def raise_for_status_def json_def and_then_def py_get_def)
  from connectivity_solutions_requests_and_output
         [OF r, where report = "[]" and photo = "Some png_magic" and K = "''key''"
            and net = "answers (Returned reply_response) (Returned photo_response)"
            and str_of = repr_none]
       connectivity_solutions_requests_and_output
         [OF r, where report = "''tower down''" and photo = "Some png_magic" and K = "''key''"
            and image_bytes = png_magic
            and net = "answers (Returned reply_response) (Returned photo_response)"
            and str_of = repr_none]
       r t i
  show ?thesis
    by (simp add: format_def startswith_def session0_def)
qed

lemma columns_of_simps [simp]:
  "columns_of [] = []"
  "columns_of (e # es) = (if is_column e then e # columns_of es else columns_of es)"
  "columns_of (xs @ ys) = columns_of xs @ columns_of ys"
  by (simp_all add: columns_of_def)

lemma show_response_columns [simp]:
  "raised s = None \<Longrightarrow> columns_of (page (show_response title v s)) = columns_of (page s)"
  by (cases v) (simp_all add: show_response_def)

lemma getitem_present:
  "name \<in> set (columns data) \<Longrightarrow> getitem data name = Inr (cells data name)"
proof (cases data)
  case (DataFrame cols)
  assume "name \<in> set (columns data)"
  with DataFrame have "name \<in> fst ` set cols" by simp
  then obtain c where "map_of cols name = Some c"
    by (metis map_of_eq_None_iff not_None_eq)
  with DataFrame show ?thesis by simp
qed

lemma try_except_columns:
  assumes "\<And>e s. columns_of (page (handler e s)) = columns_of (page s)"
  shows "columns_of (page (try_except block handler s)) = columns_of (page (block s))"
  by (simp add: try_except_def Let_def assms split: option.splits exn.splits)

lemma network_insights_columns:
  assumes "raised s = None" and "read_csv upload = Inr data"
  shows "columns_of (page (network_insights net read_csv describe_to_json K (Some upload) clicked s)) =
         columns_of (page s) @
         [if ''signal_strength'' \<in> set (columns data) then
            Column 1 (LineChart (cells data ''signal_strength''))
          else Column 1 (Write ''**signal_strength** column not found.''),
          if ''bandwidth_usage'' \<in> set (columns data) then
            Column 2 (BarChart (cells data ''bandwidth_usage''))
          else Column 2 (Write ''**bandwidth_usage** column not found.'')]"
  using assms
  by (simp add: network_insights_def try_except_columns getitem_present Let_def
      split: prod.splits sum.splits)


lemma try_except_no_raise:
  "raised (block s) = None \<Longrightarrow> try_except block handler s = block s"
  by (simp add: try_except_def Let_def)

lemma network_insights_page_idle:
  assumes "raised s = None" and "read_csv upload = Inr data"
  shows "page (network_insights net read_csv describe_to_json K (Some upload) False s) =
         page s @
         [Header ''Network Optimization Insights'',
          Subheader ''Upload Network Performance Data'',
          FileUploader ''Choose a CSV file...'' [''csv''],
          Write ''**Data Preview:**'',
          Dataframe (head data),
          Subheader ''Performance Metrics'',
          if ''signal_strength'' \<in> set (columns data) then
            Column 1 (LineChart (cells data ''signal_strength''))
          else Column 1 (Write ''**signal_strength** column not found.''),
          if ''bandwidth_usage'' \<in> set (columns data) then
            Column 2 (BarChart (cells data ''bandwidth_usage''))
          else Column 2 (Write ''**bandwidth_usage** column not found.''),
          Button ''Analyze Data'']"
  using assms
  by (simp add: network_insights_def try_except_no_raise getitem_present)

text \<open>
  Claim C8. On the Network Insights screen, for every dataset that \<open>read_csv\<close> has parsed,
  the two columns of the Performance Metrics section hold: the line chart of
  \<open>signal_strength\<close> and the bar chart of \<open>bandwidth_usage\<close> when both columns are
  present; when exactly one is missing, its \<open>column not found\<close> notice and the chart of
  the other. This holds whether or not the Analyze Data button is pressed; when it is not,
  the page holds nothing else but the upload form, the preview and the button.
\<close>

theorem network_insights_charts:
  assumes "raised s = None" and "read_csv upload = Inr data"
  shows "(''signal_strength'' \<in> set (columns data) \<and> ''bandwidth_usage'' \<in> set (columns data) \<longrightarrow>
            columns_of (page (network_insights net read_csv describe_to_json K (Some upload) clicked s)) =
            columns_of (page s) @
            [Column 1 (LineChart (cells data ''signal_strength'')),
             Column 2 (BarChart (cells data ''bandwidth_usage''))])
       \<and> (''signal_strength'' \<notin> set (columns data) \<and> ''bandwidth_usage'' \<in> set (columns data) \<longrightarrow>
            columns_of (page (network_insights net read_csv describe_to_json K (Some upload) clicked s)) =
            columns_of (page s) @
            [Column 1 (Write ''**signal_strength** column not found.''),
             Column 2 (BarChart (cells data ''bandwidth_usage''))])
       \<and> (''signal_strength'' \<in> set (columns data) \<and> ''bandwidth_usage'' \<notin> set (columns data) \<longrightarrow>
            columns_of (page (network_insights net read_csv describe_to_json K (Some upload) clicked s)) =
            columns_of (page s) @
            [Column 1 (LineChart (cells data ''signal_strength'')),
             Column 2 (Write ''**bandwidth_usage** column not found.'')])
       \<and> page (network_insights net read_csv describe_to_json K (Some upload) False s) =
            page s @
            [Header ''Network Optimization Insights'',
             Subheader ''Upload Network Performance Data'',
             FileUploader ''Choose a CSV file...'' [''csv''],
             Write ''**Data Preview:**'',
             Dataframe (head data),
             Subheader ''Performance Metrics'',
             if ''signal_strength'' \<in> set (columns data) then
               Column 1 (LineChart (cells data ''signal_strength''))
             else Column 1 (Write ''**signal_strength** column not found.''),
             if ''bandwidth_usage'' \<in> set (columns data) then
               Column 2 (BarChart (cells data ''bandwidth_usage''))
             else Column 2 (Write ''**bandwidth_usage** column not found.''),
             Button ''Analyze Data'']"
  using network_insights_columns
          [where read_csv = read_csv and upload = upload and net = net
             and describe_to_json = describe_to_json and K = K and clicked = clicked, OF assms]
    network_insights_page_idle
          [where read_csv = read_csv and upload = upload and net = net
             and describe_to_json = describe_to_json and K = K, OF assms]
  by simp

theorem network_insights_charts_witness:
  "raised session0 = None
   \<and> returns sample_data csv_file = Inr sample_data
   \<and> ''signal_strength'' \<in> set (columns sample_data)
   \<and> ''bandwidth_usage'' \<notin> set (columns sample_data)
   \<and> columns_of (page (network_insights (always refused) (returns sample_data)
                         (returns sample_summary) ''key'' (Some csv_file) True session0))
       = [Column 1 (LineChart [PInt (- 70)]),
          Column 2 (Write ''**bandwidth_usage** column not found.'')]"
proof -
  have a: "raised session0 = None" by (simp add: session0_def)
  have b: "returns sample_data csv_file = Inr sample_data" by (simp add: returns_def)
  have c: "''signal_strength'' \<in> set (columns sample_data)"
    "''bandwidth_usage'' \<notin> set (columns sample_data)"
    "cells sample_data ''signal_strength'' = [PInt (- 70)]"
    by (simp_all add: sample_data_def)
  from network_insights_charts
         [where read_csv = "returns sample_data" and upload = csv_file and net = "always refused"
            and describe_to_json = "returns sample_summary" and K = "''key''" and clicked = True,
          OF a b]
       a b c
  show ?thesis by (simp add: session0_def)
qed













lemma troubleshooting_image_undecodable:
  assumes "raised s = None" and "image_open b = Some err"
  shows "troubleshooting_assistant net image_open K issue False (Some b) analyze s =
         raise err
           (s\<lparr>page := page s @
               [Header ''Real-Time Troubleshooting Assistant'',
                Subheader ''Describe the Issue'',
                TextArea ''Enter a description of the problem:'',
                Button ''Get Suggestions'',
                Markdown ''---'',
                Subheader ''Upload an Image of the Issue'',
                FileUploader ''Choose an image...'' [''jpg'', ''png'', ''jpeg'']]\<rparr>)"
  using assms
  by (simp add: troubleshooting_assistant_def st_def raise_def)








text \<open>
  Claim C1 at two inputs of the Connectivity Solutions screen. First the text call gets a
  503 and the image call succeeds; then the text call succeeds and the image call cannot
  connect. Both times the combined string, which carries the error string of the failed
  call, is written under the success banner, and \<open>st.error\<close> is not called.
\<close>

theorem connectivity_failure_rendered_as_success:
  "page (connectivity_solutions (answers (Returned overloaded_response) (Returned photo_response))
           repr_none ''key'' ''tower down'' (Some png_magic) True session0)
     = connectivity_form @
       [Spinner ''Generating recommendations...'', Success ''**Recommendations:**'',
        Write ''HTTP error occurred: 503 Server Error: Service Unavailable for url: https://api.groq.com/openai/v1/chat/completions - upstream overloaded\<newline>\<newline>Mast looks intact.'']
   \<and> page (connectivity_solutions (answers (Returned reply_response) refused)
           repr_none ''key'' ''tower down'' (Some png_magic) True session0)
     = connectivity_form @
       [Spinner ''Generating recommendations...'', Success ''**Recommendations:**'',
        Write ''Check the antenna.\<newline>\<newline>An error occurred: Connection refused'']"
proof -
  have t1: "get_llama_text_response (answers (Returned overloaded_response) (Returned photo_response))
              ''key'' ''tower down'' ''llama-3.2-chat'' [] =
            (Inr (PStr ''HTTP error occurred: 503 Server Error: Service Unavailable for url: https://api.groq.com/openai/v1/chat/completions - upstream overloaded''),
             [chat_request ''key'' ''llama-3.2-chat'' ''tower down'' 150 (7 / 10)])"
    by (simp add: text_is_submitText submitText_def answers_def chat_request_def
        overloaded_response_def raise_for_status_def str_int_def str_nat.simps)
  have i1: "get_llama_image_response (answers (Returned overloaded_response) (Returned photo_response))
              ''key'' png_magic ''llama-3.2-image''
              [chat_request ''key'' ''llama-3.2-chat'' ''tower down'' 150 (7 / 10)] =
            (Inr (PStr ''Mast looks intact.''),
             [chat_request ''key'' ''llama-3.2-chat'' ''tower down'' 150 (7 / 10),
              image_request ''key'' png_magic])"
    by (simp add: image_response_eq answers_def image_request_def photo_response_def
        raise_for_status_def json_def and_then_def py_get_def)
  have t2: "get_llama_text_response (answers (Returned reply_response) refused)
              ''key'' ''tower down'' ''llama-3.2-chat'' [] =
            (Inr (PStr ''Check the antenna.''),
             [chat_request ''key'' ''llama-3.2-chat'' ''tower down'' 150 (7 / 10)])"
    by (simp add: text_is_submitText submitText_def answers_def chat_request_def
        reply_response_def reply_body_def ok_response_def raise_for_status_def json_def
        and_then_def py_get_def)
  have i2: "get_llama_image_response (answers (Returned reply_response) refused)
              ''key'' png_magic ''llama-3.2-image''
              [chat_request ''key'' ''llama-3.2-chat'' ''tower down'' 150 (7 / 10)] =
            (Inr (PStr ''An error occurred: Connection refused''),
             [chat_request ''key'' ''llama-3.2-chat'' ''tower down'' 150 (7 / 10),
              image_request ''key'' png_magic])"
    by (simp add: image_response_eq answers_def image_request_def refused_def)
  show ?thesis
    using t1 i1 t2 i2
    by (simp add: connectivity_solutions_def connectivity_form_def session0_def format_def
        startswith_def)
qed

end
